theory Spec2Isabelle
  imports Complex_Main
begin

section \<open>The BVH manager of \<^verbatim>\<open>src/utils/bvhManager.ts\<close>\<close>

text \<open>
  The manager keeps a registry (a JavaScript \<^verbatim>\<open>Map\<close>, iterated in insertion order) from
  meshes to their acceleration structure and a cached inverse world transform, and
  answers ray and sphere queries by a linear scan over the registry.

  Conventions of the embedding:
  \<^item> a mesh is an object reference (\<open>mesh_ref\<close>); its two fields the manager reads or
    writes, \<^verbatim>\<open>geometry\<close> and \<^verbatim>\<open>matrixWorld\<close>, live in the heap part of \<open>world\<close>;
  \<^item> a geometry is an object too (\<open>geometry_ref\<close>): the field \<^verbatim>\<open>geometry\<close> of a mesh holds
    a reference, several meshes may hold the same one, and what the library writes into
    a geometry is seen through every mesh that holds it;
  \<^item> JavaScript numbers are idealised as reals (no NaN, no infinities, no rounding), so
    every call passes its distance arguments explicitly;
  \<^item> the two external libraries (the scene graph and the acceleration-structure
    library) are a record of operations, \<open>three\<close>, that every function of the manager
    takes as its first argument. Of these operations only the constructor of the
    acceleration structure can throw; an exception is the value \<open>Inl msg\<close>. The
    constructor writes the geometry it is given, and \<^verbatim>\<open>toNonIndexed\<close> may create a
    geometry; the acceleration structure, once built, is a value of its own.
    \<^verbatim>\<open>updateMatrixWorld\<close> may rewrite the world matrix of any mesh (it descends to the
    children) and touches nothing else the manager reads;
  \<^item> the plain data classes of the scene graph (\<^verbatim>\<open>Vector3\<close>, \<^verbatim>\<open>Ray\<close>, \<^verbatim>\<open>Sphere\<close>, \<^verbatim>\<open>Box3\<close>)
    are concrete, with the few methods the manager calls; matrices, geometries and
    acceleration structures are abstract;
  \<^item> a registry entry is a value: a client that keeps the object \<^verbatim>\<open>buildBVH\<close> returned and
    writes into it is outside the model. The default arguments (\<^verbatim>\<open>Infinity\<close>, 100, 0.1, 2)
    are not modelled.
\<close>

subsection \<open>Vectors, rays, spheres and boxes\<close>

datatype Vector3 = Vector3 (vx: real) (vy: real) (vz: real)

definition distanceTo :: "Vector3 \<Rightarrow> Vector3 \<Rightarrow> real" where
  "distanceTo a b = sqrt ((vx a - vx b)\<^sup>2 + (vy a - vy b)\<^sup>2 + (vz a - vz b)\<^sup>2)"

definition add :: "Vector3 \<Rightarrow> Vector3 \<Rightarrow> Vector3" where
  "add a b = Vector3 (vx a + vx b) (vy a + vy b) (vz a + vz b)"

definition multiplyScalar :: "Vector3 \<Rightarrow> real \<Rightarrow> Vector3" where
  "multiplyScalar a s = Vector3 (vx a * s) (vy a * s) (vz a * s)"

definition vlength :: "Vector3 \<Rightarrow> real" where
  "vlength a = sqrt ((vx a)\<^sup>2 + (vy a)\<^sup>2 + (vz a)\<^sup>2)"

text \<open>\<^verbatim>\<open>normalize\<close> divides by \<^verbatim>\<open>length() || 1\<close>: the zero vector stays as it is.\<close>

definition normalizeV :: "Vector3 \<Rightarrow> Vector3" where
  "normalizeV a = multiplyScalar a (1 / (if vlength a = 0 then 1 else vlength a))"

record Ray =
  origin :: Vector3
  direction :: Vector3

record Sphere =
  center :: Vector3
  radius :: real

record Box3 =
  box_min :: Vector3
  box_max :: Vector3

definition setFromCenterAndSize :: "Vector3 \<Rightarrow> Vector3 \<Rightarrow> Box3" where
  "setFromCenterAndSize c s =
     \<lparr>box_min = Vector3 (vx c - vx s * (1/2)) (vy c - vy s * (1/2)) (vz c - vz s * (1/2)),
      box_max = Vector3 (vx c + vx s * (1/2)) (vy c + vy s * (1/2)) (vz c + vz s * (1/2))\<rparr>"

definition expandByPoint :: "Box3 \<Rightarrow> Vector3 \<Rightarrow> Box3" where
  "expandByPoint b p =
     \<lparr>box_min = Vector3 (min (vx (box_min b)) (vx p)) (min (vy (box_min b)) (vy p))
                        (min (vz (box_min b)) (vz p)),
      box_max = Vector3 (max (vx (box_max b)) (vx p)) (max (vy (box_max b)) (vy p))
                        (max (vz (box_max b)) (vz p))\<rparr>"

subsection \<open>Meshes, hits and the library interface\<close>

type_synonym mesh_ref = nat

type_synonym geometry_ref = nat

record 'a BufferGeometry =
  index :: "nat list option"
  attributes :: 'a

type_synonym 'a geometries = "geometry_ref \<Rightarrow> 'a BufferGeometry"

datatype Side = FrontSide | BackSide | DoubleSide

text \<open>What the acceleration structure reports for a ray, in the mesh's local space.\<close>

record 'f hit =
  point :: Vector3
  face :: 'f
  faceIndex :: nat
  uv :: "(real \<times> real) option"
  uv2 :: "(real \<times> real) option"

text \<open>\<^verbatim>\<open>THREE.Intersection\<close> as the manager builds it: the hit, moved to world space,
  with its distance and the mesh it lies on.\<close>

record 'f Intersection = "'f hit" +
  distance :: real
  object :: mesh_ref

text \<open>The operations of the two libraries. \<^verbatim>\<open>toNonIndexed\<close> returns a geometry object:
  the one it was called on or one it creates, so it takes the objects there are and
  returns the reference with the objects there are afterwards. The constructor of the
  acceleration structure returns the structure, or throws, and in both cases leaves the
  geometry it was given as the second component says: it creates the index buffer of a
  geometry that has none and reorders one that is there.\<close>

record ('a, 'b, 'm, 'f) three =
  toNonIndexed :: "geometry_ref \<Rightarrow> 'a geometries \<Rightarrow> geometry_ref \<times> 'a geometries"
  newMeshBVH :: "'a BufferGeometry \<Rightarrow> nat \<Rightarrow> nat \<Rightarrow> (string + 'b) \<times> 'a BufferGeometry"
  updateMatrixWorld :: "mesh_ref \<Rightarrow> (mesh_ref \<Rightarrow> 'm) \<Rightarrow> (mesh_ref \<Rightarrow> 'm)"
  newMatrix4 :: 'm
  invert :: "'m \<Rightarrow> 'm"
  applyMatrix4 :: "Vector3 \<Rightarrow> 'm \<Rightarrow> Vector3"
  transformDirection :: "Vector3 \<Rightarrow> 'm \<Rightarrow> Vector3"
  raycastFirst :: "'b \<Rightarrow> Ray \<Rightarrow> Side \<Rightarrow> 'f hit option"
  intersectsBox :: "'b \<Rightarrow> Box3 \<Rightarrow> 'm \<Rightarrow> bool"

text \<open>\<^verbatim>\<open>Ray.applyMatrix4\<close>: the origin as a point, the direction as a direction.\<close>

definition Ray_applyMatrix4 :: "('a, 'b, 'm, 'f) three \<Rightarrow> Ray \<Rightarrow> 'm \<Rightarrow> Ray" where
  "Ray_applyMatrix4 T r M =
     \<lparr>origin = applyMatrix4 T (origin r) M, direction = transformDirection T (direction r) M\<rparr>"

subsection \<open>The registry and the world\<close>

record ('b, 'm) BVHMesh =
  mesh :: mesh_ref
  bvh :: 'b
  invMatrixWorld :: 'm

datatype console_msg =
  Warn string mesh_ref
| Error string string mesh_ref

record ('a, 'b, 'm) world =
  bvhMeshes :: "(mesh_ref \<times> ('b, 'm) BVHMesh) list"
  geometry :: "mesh_ref \<Rightarrow> geometry_ref option"
  geometries :: "'a geometries"
  matrixWorld :: "mesh_ref \<Rightarrow> 'm"
  console :: "console_msg list"

text \<open>The operations of a JavaScript \<^verbatim>\<open>Map\<close> on its list of entries: \<^verbatim>\<open>set\<close> keeps the
  place of a key that is present and appends a new one.\<close>

definition Map_has :: "('k \<times> 'v) list \<Rightarrow> 'k \<Rightarrow> bool" where
  "Map_has es k = (map_of es k \<noteq> None)"

definition Map_get :: "('k \<times> 'v) list \<Rightarrow> 'k \<Rightarrow> 'v option" where
  "Map_get es k = map_of es k"

fun Map_set :: "'k \<Rightarrow> 'v \<Rightarrow> ('k \<times> 'v) list \<Rightarrow> ('k \<times> 'v) list" where
  "Map_set k v [] = [(k, v)]"
| "Map_set k v (p # ps) = (if fst p = k then (k, v) # ps else p # Map_set k v ps)"

definition Map_delete :: "'k \<Rightarrow> ('k \<times> 'v) list \<Rightarrow> ('k \<times> 'v) list" where
  "Map_delete k es = filter (\<lambda>p. fst p \<noteq> k) es"

definition Map_keys :: "('k \<times> 'v) list \<Rightarrow> 'k list" where
  "Map_keys es = map fst es"

subsection \<open>buildBVH, removeBVH, updateMatrices, clear\<close>

text \<open>The body of the \<^verbatim>\<open>try\<close> block, for a mesh whose field \<^verbatim>\<open>geometry\<close> holds \<open>r\<close>.
  \<open>Inl\<close> is a thrown exception, with the world as it is at the throw: the field may
  already be reassigned, and the constructor may already have written the geometry.\<close>

definition buildBVH_try ::
  "('a, 'b, 'm, 'f) three \<Rightarrow> mesh_ref \<Rightarrow> geometry_ref \<Rightarrow> ('a, 'b, 'm) world
     \<Rightarrow> (string \<times> ('a, 'b, 'm) world) + (('b, 'm) BVHMesh \<times> ('a, 'b, 'm) world)" where
  "buildBVH_try T m r w =
     (let w1 = (if index (geometries w r) = None
                then w\<lparr>geometry := (geometry w)(m := Some (fst (toNonIndexed T r (geometries w)))),
                       geometries := snd (toNonIndexed T r (geometries w))\<rparr>
                else w);
          r1 = (if index (geometries w r) = None then fst (toNonIndexed T r (geometries w)) else r);
          built = newMeshBVH T (geometries w1 r1) 40 10;
          w1' = w1\<lparr>geometries := (geometries w1)(r1 := snd built)\<rparr>
      in case fst built of
           Inl err \<Rightarrow> Inl (err, w1')
         | Inr b \<Rightarrow>
             let bvhMesh = \<lparr>mesh = m, bvh = b, invMatrixWorld = newMatrix4 T\<rparr>;
                 w2 = w1'\<lparr>bvhMeshes := Map_set m bvhMesh (bvhMeshes w1')\<rparr>;
                 w3 = w2\<lparr>matrixWorld := updateMatrixWorld T m (matrixWorld w2)\<rparr>;
                 bvhMesh' = bvhMesh\<lparr>invMatrixWorld := invert T (matrixWorld w3 m)\<rparr>;
                 w4 = w3\<lparr>bvhMeshes := Map_set m bvhMesh' (bvhMeshes w3)\<rparr>
             in Inr (bvhMesh', w4))"

definition buildBVH ::
  "('a, 'b, 'm, 'f) three \<Rightarrow> mesh_ref \<Rightarrow> ('a, 'b, 'm) world
     \<Rightarrow> ('b, 'm) BVHMesh option \<times> ('a, 'b, 'm) world" where
  "buildBVH T m w =
     (case geometry w m of
        None \<Rightarrow> (None, w\<lparr>console := console w @ [Warn ''BVHManager: Mesh has no geometry'' m]\<rparr>)
      | Some r \<Rightarrow>
          if Map_has (bvhMeshes w) m then (Map_get (bvhMeshes w) m, w)
          else (case buildBVH_try T m r w of
                  Inr (bvhMesh, w') \<Rightarrow> (Some bvhMesh, w')
                | Inl (err, w') \<Rightarrow>
                    (None, w'\<lparr>console := console w' @
                                [Error ''BVHManager: Failed to build BVH'' err m]\<rparr>)))"

definition removeBVH :: "mesh_ref \<Rightarrow> ('a, 'b, 'm) world \<Rightarrow> ('a, 'b, 'm) world" where
  "removeBVH m w = w\<lparr>bvhMeshes := Map_delete m (bvhMeshes w)\<rparr>"

text \<open>\<^verbatim>\<open>updateMatrices\<close> visits the entries in order; each visit refreshes the world
  matrices through the mesh of the entry and then that entry's cached inverse.\<close>

fun updateMatrices_loop ::
  "('a, 'b, 'm, 'f) three \<Rightarrow> (mesh_ref \<times> ('b, 'm) BVHMesh) list \<Rightarrow> (mesh_ref \<Rightarrow> 'm)
     \<Rightarrow> (mesh_ref \<times> ('b, 'm) BVHMesh) list \<times> (mesh_ref \<Rightarrow> 'm)" where
  "updateMatrices_loop T [] mw = ([], mw)"
| "updateMatrices_loop T ((k, bvhMesh) # es) mw =
     (let mw1 = updateMatrixWorld T (mesh bvhMesh) mw;
          bvhMesh' = bvhMesh\<lparr>invMatrixWorld := invert T (mw1 (mesh bvhMesh))\<rparr>;
          (es', mw2) = updateMatrices_loop T es mw1
      in ((k, bvhMesh') # es', mw2))"

definition updateMatrices ::
  "('a, 'b, 'm, 'f) three \<Rightarrow> ('a, 'b, 'm) world \<Rightarrow> ('a, 'b, 'm) world" where
  "updateMatrices T w =
     (let (es', mw') = updateMatrices_loop T (bvhMeshes w) (matrixWorld w)
      in w\<lparr>bvhMeshes := es', matrixWorld := mw'\<rparr>)"

definition clear :: "('a, 'b, 'm) world \<Rightarrow> ('a, 'b, 'm) world" where
  "clear w = w\<lparr>bvhMeshes := []\<rparr>"

subsection \<open>Queries\<close>

text \<open>One visit of the \<^verbatim>\<open>forEach\<close> in \<^verbatim>\<open>raycast\<close>; the pair is
  \<^verbatim>\<open>(closestHit, closestDistance)\<close>.\<close>

definition raycast_visit ::
  "('a, 'b, 'm, 'f) three \<Rightarrow> ('a, 'b, 'm) world \<Rightarrow> Ray \<Rightarrow> (mesh_ref \<times> ('b, 'm) BVHMesh)
     \<Rightarrow> 'f Intersection option \<times> real \<Rightarrow> 'f Intersection option \<times> real" where
  "raycast_visit T w ray en acc =
     (let bvhMesh = snd en;
          localRay = Ray_applyMatrix4 T ray (invMatrixWorld bvhMesh)
      in case raycastFirst T (bvh bvhMesh) localRay FrontSide of
           None \<Rightarrow> acc
         | Some h \<Rightarrow>
             let worldPoint = applyMatrix4 T (point h) (matrixWorld w (mesh bvhMesh));
                 dist = distanceTo (origin ray) worldPoint
             in if dist < snd acc
                then (Some \<lparr>point = worldPoint, face = face h, faceIndex = faceIndex h,
                            uv = uv h, uv2 = uv2 h,
                            distance = dist, object = mesh bvhMesh\<rparr>, dist)
                else acc)"

definition raycast ::
  "('a, 'b, 'm, 'f) three \<Rightarrow> ('a, 'b, 'm) world \<Rightarrow> Ray \<Rightarrow> real \<Rightarrow> 'f Intersection option" where
  "raycast T w ray maxDistance =
     fst (fold (raycast_visit T w ray) (bvhMeshes w) (None, maxDistance))"

text \<open>One visit of the \<^verbatim>\<open>forEach\<close> in \<^verbatim>\<open>sphereCast\<close>. \<^verbatim>\<open>multiplyScalar\<close> scales
  \<^verbatim>\<open>localDirection\<close> in place, so the ray of the detailed check has the scaled
  direction.\<close>

definition sphereCast_visit ::
  "('a, 'b, 'm, 'f) three \<Rightarrow> ('a, 'b, 'm) world \<Rightarrow> Sphere \<Rightarrow> Vector3 \<Rightarrow> real
     \<Rightarrow> (mesh_ref \<times> ('b, 'm) BVHMesh)
     \<Rightarrow> 'f Intersection option \<times> real \<Rightarrow> 'f Intersection option \<times> real" where
  "sphereCast_visit T w sphere dir maxDistance en acc =
     (let bvhMesh = snd en;
          localSphere = sphere\<lparr>center := applyMatrix4 T (center sphere) (invMatrixWorld bvhMesh)\<rparr>;
          box = setFromCenterAndSize (center localSphere)
                  (Vector3 (radius localSphere * 2) (radius localSphere * 2)
                           (radius localSphere * 2));
          localDirection = multiplyScalar
                  (normalizeV (applyMatrix4 T dir (invMatrixWorld bvhMesh))) maxDistance;
          endPoint = add (center localSphere) localDirection;
          box' = expandByPoint box endPoint
      in if intersectsBox T (bvh bvhMesh) box' (newMatrix4 T)
         then (case raycastFirst T (bvh bvhMesh)
                      \<lparr>origin = center localSphere, direction = localDirection\<rparr> FrontSide of
                 None \<Rightarrow> acc
               | Some h \<Rightarrow>
                   let worldPoint = applyMatrix4 T (point h) (matrixWorld w (mesh bvhMesh));
                       dist = distanceTo (center sphere) worldPoint
                   in if dist < snd acc
                      then (Some \<lparr>point = worldPoint, face = face h, faceIndex = faceIndex h,
                                  uv = uv h, uv2 = uv2 h,
                                  distance = dist, object = mesh bvhMesh\<rparr>, dist)
                      else acc)
         else acc)"

definition sphereCast ::
  "('a, 'b, 'm, 'f) three \<Rightarrow> ('a, 'b, 'm) world \<Rightarrow> Sphere \<Rightarrow> Vector3 \<Rightarrow> real
     \<Rightarrow> 'f Intersection option" where
  "sphereCast T w sphere dir maxDistance =
     fst (fold (sphereCast_visit T w sphere dir maxDistance) (bvhMeshes w) (None, maxDistance))"

definition getGroundHeight ::
  "('a, 'b, 'm, 'f) three \<Rightarrow> ('a, 'b, 'm) world \<Rightarrow> real \<Rightarrow> real \<Rightarrow> real \<Rightarrow> real option" where
  "getGroundHeight T w x z maxDistance =
     (let ray = \<lparr>origin = Vector3 x maxDistance z, direction = Vector3 0 (- 1) 0\<rparr>
      in case raycast T w ray (maxDistance * 2) of
           Some h \<Rightarrow> Some (vy (point h))
         | None \<Rightarrow> None)"

definition isOnGround ::
  "('a, 'b, 'm, 'f) three \<Rightarrow> ('a, 'b, 'm) world \<Rightarrow> Vector3 \<Rightarrow> real \<Rightarrow> real \<Rightarrow> bool" where
  "isOnGround T w position threshold maxDistance =
     (case getGroundHeight T w (vx position) (vz position) maxDistance of
        None \<Rightarrow> False
      | Some groundHeight \<Rightarrow> \<bar>vy position - groundHeight\<bar> < threshold)"

definition getAllBVHMeshes :: "('a, 'b, 'm) world \<Rightarrow> ('b, 'm) BVHMesh list" where
  "getAllBVHMeshes w = map snd (bvhMeshes w)"

subsection \<open>Per-mesh hits\<close>

text \<open>The hit of one registered mesh, as an intersection in world space: what one visit
  of \<^verbatim>\<open>raycast\<close> computes before it compares distances.\<close>

definition ray_hit ::
  "('a, 'b, 'm, 'f) three \<Rightarrow> ('a, 'b, 'm) world \<Rightarrow> Ray \<Rightarrow> ('b, 'm) BVHMesh
     \<Rightarrow> 'f Intersection option" where
  "ray_hit T w ray bvhMesh =
     (case raycastFirst T (bvh bvhMesh) (Ray_applyMatrix4 T ray (invMatrixWorld bvhMesh))
             FrontSide of
        None \<Rightarrow> None
      | Some h \<Rightarrow>
          Some \<lparr>point = applyMatrix4 T (point h) (matrixWorld w (mesh bvhMesh)),
                face = face h, faceIndex = faceIndex h, uv = uv h, uv2 = uv2 h,
                distance = distanceTo (origin ray)
                             (applyMatrix4 T (point h) (matrixWorld w (mesh bvhMesh))),
                object = mesh bvhMesh\<rparr>)"

definition ray_hits ::
  "('a, 'b, 'm, 'f) three \<Rightarrow> ('a, 'b, 'm) world \<Rightarrow> Ray \<Rightarrow> 'f Intersection list" where
  "ray_hits T w ray = List.map_filter (\<lambda>en. ray_hit T w ray (snd en)) (bvhMeshes w)"

text \<open>The sphere and the direction in the local space of a registered mesh, through
  its cached inverse world transform.\<close>

definition local_center :: "('a, 'b, 'm, 'f) three \<Rightarrow> Sphere \<Rightarrow> ('b, 'm) BVHMesh \<Rightarrow> Vector3" where
  "local_center T sphere bvhMesh = applyMatrix4 T (center sphere) (invMatrixWorld bvhMesh)"

definition local_direction ::
  "('a, 'b, 'm, 'f) three \<Rightarrow> Vector3 \<Rightarrow> real \<Rightarrow> ('b, 'm) BVHMesh \<Rightarrow> Vector3" where
  "local_direction T dir maxDistance bvhMesh =
     multiplyScalar (normalizeV (applyMatrix4 T dir (invMatrixWorld bvhMesh))) maxDistance"

definition swept_box ::
  "('a, 'b, 'm, 'f) three \<Rightarrow> Sphere \<Rightarrow> Vector3 \<Rightarrow> real \<Rightarrow> ('b, 'm) BVHMesh \<Rightarrow> Box3" where
  "swept_box T sphere dir maxDistance bvhMesh =
     expandByPoint
       (setFromCenterAndSize (local_center T sphere bvhMesh)
          (Vector3 (radius sphere * 2) (radius sphere * 2) (radius sphere * 2)))
       (add (local_center T sphere bvhMesh) (local_direction T dir maxDistance bvhMesh))"

text \<open>The hit of one registered mesh for a sphere cast: the swept box must meet the
  acceleration structure, and the hit is that of the ray from the local centre along the
  local direction.\<close>

definition sphere_hit ::
  "('a, 'b, 'm, 'f) three \<Rightarrow> ('a, 'b, 'm) world \<Rightarrow> Sphere \<Rightarrow> Vector3 \<Rightarrow> real
     \<Rightarrow> ('b, 'm) BVHMesh \<Rightarrow> 'f Intersection option" where
  "sphere_hit T w sphere dir maxDistance bvhMesh =
     (if intersectsBox T (bvh bvhMesh) (swept_box T sphere dir maxDistance bvhMesh) (newMatrix4 T)
      then (case raycastFirst T (bvh bvhMesh)
                   \<lparr>origin = local_center T sphere bvhMesh,
                    direction = local_direction T dir maxDistance bvhMesh\<rparr> FrontSide of
              None \<Rightarrow> None
            | Some h \<Rightarrow>
                Some \<lparr>point = applyMatrix4 T (point h) (matrixWorld w (mesh bvhMesh)),
                      face = face h, faceIndex = faceIndex h, uv = uv h, uv2 = uv2 h,
                      distance = distanceTo (center sphere)
                                   (applyMatrix4 T (point h) (matrixWorld w (mesh bvhMesh))),
                      object = mesh bvhMesh\<rparr>)
      else None)"

definition sphere_hits ::
  "('a, 'b, 'm, 'f) three \<Rightarrow> ('a, 'b, 'm) world \<Rightarrow> Sphere \<Rightarrow> Vector3 \<Rightarrow> real
     \<Rightarrow> 'f Intersection list" where
  "sphere_hits T w sphere dir maxDistance =
     List.map_filter (\<lambda>en. sphere_hit T w sphere dir maxDistance (snd en)) (bvhMeshes w)"

text \<open>The comparison every visit makes with its hit, if it has one.\<close>

definition keep_closer ::
  "'f Intersection option \<Rightarrow> 'f Intersection option \<times> real \<Rightarrow> 'f Intersection option \<times> real" where
  "keep_closer c acc =
     (case c of None \<Rightarrow> acc
      | Some h \<Rightarrow> if distance h < snd acc then (Some h, distance h) else acc)"

subsection \<open>Sequences of calls\<close>

text \<open>The calls a client can make, and \<open>Env\<close>: the client changing the meshes
  themselves between two calls.\<close>

datatype ('a, 'm) call =
  BuildBVH mesh_ref
| RemoveBVH mesh_ref
| UpdateMatrices
| Raycast Ray real
| SphereCast Sphere Vector3 real
| GetGroundHeight real real real
| IsOnGround Vector3 real real
| Clear
| Env "mesh_ref \<Rightarrow> geometry_ref option" "'a geometries" "mesh_ref \<Rightarrow> 'm"

fun exec_call ::
  "('a, 'b, 'm, 'f) three \<Rightarrow> ('a, 'm) call \<Rightarrow> ('a, 'b, 'm) world \<Rightarrow> ('a, 'b, 'm) world" where
  "exec_call T (BuildBVH m) w = snd (buildBVH T m w)"
| "exec_call T (RemoveBVH m) w = removeBVH m w"
| "exec_call T UpdateMatrices w = updateMatrices T w"
| "exec_call T (Raycast ray maxDistance) w = w"
| "exec_call T (SphereCast sphere dir maxDistance) w = w"
| "exec_call T (GetGroundHeight x z maxDistance) w = w"
| "exec_call T (IsOnGround position threshold maxDistance) w = w"
| "exec_call T Clear w = clear w"
| "exec_call T (Env g gs mw) w = w\<lparr>geometry := g, geometries := gs, matrixWorld := mw\<rparr>"

fun run ::
  "('a, 'b, 'm, 'f) three \<Rightarrow> ('a, 'm) call list \<Rightarrow> ('a, 'b, 'm) world \<Rightarrow> ('a, 'b, 'm) world" where
  "run T [] w = w"
| "run T (c # cs) w = run T cs (exec_call T c w)"

text \<open>A manager as its constructor leaves it: an empty registry, over any meshes.\<close>

definition new_world ::
  "(mesh_ref \<Rightarrow> geometry_ref option) \<Rightarrow> 'a geometries \<Rightarrow> (mesh_ref \<Rightarrow> 'm)
     \<Rightarrow> ('a, 'b, 'm) world" where
  "new_world g gs mw =
     \<lparr>bvhMeshes = [], geometry = g, geometries = gs, matrixWorld = mw, console = []\<rparr>"

text \<open>The registry invariant as the specification words it: whether some
  \<^verbatim>\<open>buildBVH(m)\<close> succeeded (returned an entry) after the most recent \<^verbatim>\<open>removeBVH(m)\<close>
  or \<^verbatim>\<open>clear\<close>. The flag \<open>b\<close> is the answer for the calls already made.\<close>

fun spec_registered ::
  "('a, 'b, 'm, 'f) three \<Rightarrow> mesh_ref \<Rightarrow> ('a, 'm) call list \<Rightarrow> ('a, 'b, 'm) world \<Rightarrow> bool
     \<Rightarrow> bool" where
  "spec_registered T m [] w b = b"
| "spec_registered T m (c # cs) w b =
     spec_registered T m cs (exec_call T c w)
       (case c of
          BuildBVH k \<Rightarrow> b \<or> (k = m \<and> fst (buildBVH T k w) \<noteq> None)
        | RemoveBVH k \<Rightarrow> b \<and> k \<noteq> m
        | Clear \<Rightarrow> False
        | _ \<Rightarrow> b)"

subsection \<open>A concrete scene: horizontal floors\<close>

text \<open>An instance of the library interface, small enough to compute with. A geometry
  with attribute \<open>Some h\<close> is a horizontal floor at local height \<open>h\<close>, seen from above;
  without the attribute the acceleration structure cannot be built. The constructor
  gives a geometry without index buffer the index of its six vertices and leaves an
  index that is there in its order; \<^verbatim>\<open>toNonIndexed\<close>, called on a geometry without
  index, returns that geometry. A transform is a vertical translation; mesh \<open>k\<close> is a
  root object placed at height \<open>pos k\<close>.\<close>

definition floors :: "(mesh_ref \<Rightarrow> real) \<Rightarrow> (real option, real, real, unit) three" where
  "floors pos =
     \<lparr>toNonIndexed = (\<lambda>r gs. (r, gs)),
      newMeshBVH = (\<lambda>g maxDepth maxLeafTris.
         case attributes g of
           None \<Rightarrow> (Inl ''no position attribute'', g)
         | Some h \<Rightarrow>
             (Inr h, g\<lparr>index := Some (case index g of None \<Rightarrow> [0, 1, 2, 3, 4, 5]
                                              | Some ix \<Rightarrow> ix)\<rparr>)),
      updateMatrixWorld = (\<lambda>m mw. mw(m := pos m)),
      newMatrix4 = 0,
      invert = (\<lambda>t. - t),
      applyMatrix4 = (\<lambda>v t. Vector3 (vx v) (vy v + t) (vz v)),
      transformDirection = (\<lambda>v t. normalizeV v),
      raycastFirst = (\<lambda>h r side.
         if vy (direction r) < 0 \<and> h < vy (origin r) \<and> side \<noteq> BackSide
         then Some \<lparr>point = Vector3
                       (vx (origin r) + vx (direction r) * ((vy (origin r) - h) / (- vy (direction r))))
                       h
                       (vz (origin r) + vz (direction r) * ((vy (origin r) - h) / (- vy (direction r)))),
                    face = (), faceIndex = 0, uv = None, uv2 = None\<rparr>
         else None),
      intersectsBox = (\<lambda>h box M. vy (box_min box) \<le> h \<and> h \<le> vy (box_max box))\<rparr>"

definition floor_geometry :: "real \<Rightarrow> real option BufferGeometry" where
  "floor_geometry h = \<lparr>index = Some [0, 1, 2, 0, 2, 3], attributes = Some h\<rparr>"

text \<open>In the scenes mesh \<open>k\<close> holds the geometry object \<open>k\<close>, unless said otherwise. Two
  floors at heights 0 and 1, registered in that order, and one floor alone.\<close>

definition two_floors :: "(real option, real, real) world" where
  "two_floors = run (floors real) [BuildBVH 0, BuildBVH 1]
      (new_world (\<lambda>k. Some k) (\<lambda>r. floor_geometry 0) (\<lambda>k. 0))"

definition one_floor :: "(real option, real, real) world" where
  "one_floor = run (floors real) [BuildBVH 0]
      (new_world (\<lambda>k. Some k) (\<lambda>r. floor_geometry 0) (\<lambda>k. 0))"

definition down_ray :: Ray where
  "down_ray = \<lparr>origin = Vector3 0 3 0, direction = Vector3 0 (- 1) 0\<rparr>"

text \<open>The geometry object the constructor of the acceleration structure receives for a
  mesh that holds \<open>r\<close>, with the objects there are at that moment.\<close>

definition prepared ::
  "('a, 'b, 'm, 'f) three \<Rightarrow> geometry_ref \<Rightarrow> 'a geometries \<Rightarrow> geometry_ref \<times> 'a geometries" where
  "prepared T r gs = (if index (gs r) = None then toNonIndexed T r gs else (r, gs))"

definition constructed ::
  "('a, 'b, 'm, 'f) three \<Rightarrow> geometry_ref \<Rightarrow> 'a geometries \<Rightarrow> (string + 'b) \<times> 'a BufferGeometry" where
  "constructed T r gs = newMeshBVH T (snd (prepared T r gs) (fst (prepared T r gs))) 40 10"

text \<open>The geometry objects after the attempt to build: the constructor has written the
  one it received.\<close>

definition written :: "('a, 'b, 'm, 'f) three \<Rightarrow> geometry_ref \<Rightarrow> 'a geometries \<Rightarrow> 'a geometries" where
  "written T r gs = (snd (prepared T r gs))(fst (prepared T r gs) := snd (constructed T r gs))"

text \<open>One floor whose mesh then lost its geometry; three meshes of which the first has
  no geometry and the second a geometry the acceleration structure cannot be built
  from; and floors that are not registered yet.\<close>

definition stripped_floor :: "(real option, real, real) world" where
  "stripped_floor = run (floors real) [BuildBVH 0, Env (\<lambda>k. None) (\<lambda>r. floor_geometry 0) (\<lambda>k. 0)]
      (new_world (\<lambda>k. Some k) (\<lambda>r. floor_geometry 0) (\<lambda>k. 0))"

definition broken_meshes :: "(real option, real, real) world" where
  "broken_meshes = new_world
      (\<lambda>k. if k = 0 then None else Some k)
      (\<lambda>r. if r = 1 then \<lparr>index = None, attributes = None\<rparr> else floor_geometry 0)
      (\<lambda>k. 0)"

definition fresh_floors :: "(real option, real, real) world" where
  "fresh_floors = new_world (\<lambda>k. Some k) (\<lambda>r. floor_geometry 0) (\<lambda>k. 0)"

text \<open>Meshes that all hold one geometry object, number 7, which has no index buffer.\<close>

definition shared_floor :: "(real option, real, real) world" where
  "shared_floor = new_world (\<lambda>k. Some 7) (\<lambda>r. \<lparr>index = None, attributes = Some 0\<rparr>) (\<lambda>k. 0)"

text \<open>The registry invariant: every entry is filed under its own mesh.\<close>

definition entries_ok :: "(mesh_ref \<times> ('b, 'm) BVHMesh) list \<Rightarrow> bool" where
  "entries_ok es = (\<forall>en\<in>set es. mesh (snd en) = fst en)"

text \<open>More scenes: a floor at height \<open>- 3\<close>; the two floors after the upper one was
  removed and the matrices refreshed; a floor at height 5 with a sphere above it.\<close>

definition deep_floor :: "(real option, real, real) world" where
  "deep_floor = run (floors (\<lambda>k. - 3)) [BuildBVH 0]
      (new_world (\<lambda>k. Some k) (\<lambda>r. floor_geometry 0) (\<lambda>k. 0))"

definition raised_floor :: "(real option, real, real) world" where
  "raised_floor = run (floors (\<lambda>k. 5)) [BuildBVH 0]
      (new_world (\<lambda>k. Some k) (\<lambda>r. floor_geometry 0) (\<lambda>k. 0))"

definition rising_sphere :: Sphere where
  "rising_sphere = \<lparr>center = Vector3 0 8 0, radius = 1\<rparr>"

definition after_removal :: "(real option, real, real) world" where
  "after_removal = run (floors real) ([BuildBVH 0, BuildBVH 1] @ RemoveBVH 1 # [UpdateMatrices])
      (new_world (\<lambda>k. Some k) (\<lambda>r. floor_geometry 0) (\<lambda>k. 0))"

section \<open>Properties\<close>

subsection \<open>The scan keeps the closest hit\<close>

lemma raycast_visit_keep:
  "raycast_visit T w ray en acc = keep_closer (ray_hit T w ray (snd en)) acc"
  by (auto simp: raycast_visit_def keep_closer_def ray_hit_def Let_def split: option.splits)

lemma sphereCast_visit_keep:
  "sphereCast_visit T w s dir d en acc = keep_closer (sphere_hit T w s dir d (snd en)) acc"
  by (auto simp: sphereCast_visit_def keep_closer_def sphere_hit_def swept_box_def
      local_center_def local_direction_def Let_def split: option.splits)

lemma fold_keep_closer_map_filter:
  "fold (\<lambda>en. keep_closer (f en)) es acc =
     fold (\<lambda>c. keep_closer (Some c)) (List.map_filter f es) acc"
  by (induction es arbitrary: acc)
    (auto simp: List.map_filter_simps keep_closer_def split: option.splits)

lemma fold_closer_None:
  "fst (fold (\<lambda>c. keep_closer (Some c)) cs (a, d)) = None \<longleftrightarrow>
     a = None \<and> (\<forall>c\<in>set cs. \<not> distance c < d)"
proof (induction cs arbitrary: a d)
  case Nil
  then show ?case by simp
next
  case (Cons c cs)
  show ?case
  proof (cases "distance c < d")
    case True
    then show ?thesis using Cons.IH [of "Some c" "distance c"]
      by (simp add: keep_closer_def)
  next
    case False
    then show ?thesis using Cons.IH [of a d]
      by (simp add: keep_closer_def)
  qed
qed

lemma fold_closer_Some:
  assumes "fst (fold (\<lambda>c. keep_closer (Some c)) cs (a, d)) = Some h"
    and "\<forall>h0. a = Some h0 \<longrightarrow> distance h0 = d"
  shows "(a = Some h \<or> h \<in> set cs) \<and> distance h \<le> d \<and> (a = None \<longrightarrow> distance h < d)
     \<and> (\<forall>c\<in>set cs. distance h \<le> distance c)"
  using assms
proof (induction cs arbitrary: a d)
  case Nil
  then show ?case by simp
next
  case (Cons c cs)
  show ?case
  proof (cases "distance c < d")
    case True
    have "keep_closer (Some c) (a, d) = (Some c, distance c)"
      using True by (simp add: keep_closer_def)
    with Cons.prems
    have "fst (fold (\<lambda>c. keep_closer (Some c)) cs (Some c, distance c)) = Some h"
      by simp
    from Cons.IH [OF this] True show ?thesis by auto
  next
    case False
    have "keep_closer (Some c) (a, d) = (a, d)"
      using False by (simp add: keep_closer_def)
    with Cons.prems have "fst (fold (\<lambda>c. keep_closer (Some c)) cs (a, d)) = Some h"
      by simp
    from Cons.IH [OF this Cons.prems(2)] False show ?thesis by auto
  qed
qed

lemma raycast_fold:
  "raycast T w ray d = fst (fold (\<lambda>c. keep_closer (Some c)) (ray_hits T w ray) (None, d))"
proof -
  have "raycast_visit T w ray = (\<lambda>en. keep_closer (ray_hit T w ray (snd en)))"
    by (rule ext, rule ext) (rule raycast_visit_keep)
  then have "raycast T w ray d =
      fst (fold (\<lambda>en. keep_closer (ray_hit T w ray (snd en))) (bvhMeshes w) (None, d))"
    by (simp only: raycast_def)
  also have "\<dots> = fst (fold (\<lambda>c. keep_closer (Some c)) (ray_hits T w ray) (None, d))"
    unfolding ray_hits_def by (rule arg_cong [where f = fst]) (rule fold_keep_closer_map_filter)
  finally show ?thesis .
qed

lemma raycast_None_iff:
  "raycast T w ray d = None \<longleftrightarrow> (\<forall>c\<in>set (ray_hits T w ray). \<not> distance c < d)"
  unfolding raycast_fold by (simp only: fold_closer_None simp_thms)

lemma raycast_SomeD:
  assumes "raycast T w ray d = Some h"
  shows "h \<in> set (ray_hits T w ray)" "distance h < d"
    "\<forall>c\<in>set (ray_hits T w ray). distance h \<le> distance c"
proof -
  from assms
  have *: "fst (fold (\<lambda>c. keep_closer (Some c)) (ray_hits T w ray) (None, d)) = Some h"
    by (simp only: raycast_fold)
  from fold_closer_Some [OF *]
  show "h \<in> set (ray_hits T w ray)" "distance h < d"
    "\<forall>c\<in>set (ray_hits T w ray). distance h \<le> distance c"
    by simp_all
qed

subsection \<open>The concrete scenes, evaluated\<close>

lemma distanceTo_vertical: "distanceTo (Vector3 a b c) (Vector3 a b' c) = \<bar>b - b'\<bar>"
  by (simp add: distanceTo_def)

lemma vlength_down: "vlength (Vector3 0 (- 1) 0) = 1"
  by (simp add: vlength_def)

lemma fun_upd_const: "(\<lambda>r. c)(k := c) = (\<lambda>r. c)"
  by (rule ext) simp

lemma two_floors_eq:
  "two_floors = \<lparr>bvhMeshes = [(0, \<lparr>mesh = 0, bvh = 0, invMatrixWorld = 0\<rparr>),
                               (1, \<lparr>mesh = 1, bvh = 0, invMatrixWorld = - 1\<rparr>)],
                  geometry = (\<lambda>k. Some k), geometries = (\<lambda>r. floor_geometry 0),
                  matrixWorld = (\<lambda>k. 0)(0 := 0, 1 := 1), console = []\<rparr>"
  by (simp add: two_floors_def new_world_def buildBVH_def buildBVH_try_def floors_def
      floor_geometry_def fun_upd_const Map_has_def Map_get_def Let_def)

lemma ray_hits_two_floors:
  "ray_hits (floors real) two_floors down_ray =
     [\<lparr>point = Vector3 0 0 0, face = (), faceIndex = 0, uv = None, uv2 = None,
       distance = 3, object = 0\<rparr>,
      \<lparr>point = Vector3 0 1 0, face = (), faceIndex = 0, uv = None, uv2 = None,
       distance = 2, object = 1\<rparr>]"
  by (simp add: two_floors_eq ray_hits_def ray_hit_def List.map_filter_simps floors_def
      Ray_applyMatrix4_def down_ray_def normalizeV_def multiplyScalar_def vlength_down
      distanceTo_vertical)

subsection \<open>Claim about raycast\<close>

text \<open>
  C1. For every registry and every ray with maximum distance \<open>d\<close>, \<^verbatim>\<open>raycast\<close> returns
  the globally closest hit among the per-mesh hits: the result is one of the per-mesh hits
  in world space, its distance from the ray origin is below \<open>d\<close> and is minimal over the
  hits of every registered mesh. It returns null exactly when no registered mesh has a
  hit at a distance below \<open>d\<close> (the comparison is strict).
\<close>

theorem raycast_closest:
  "(raycast T w ray d = None \<longleftrightarrow> (\<forall>c\<in>set (ray_hits T w ray). \<not> distance c < d)) \<and>
   (\<forall>h. raycast T w ray d = Some h \<longrightarrow>
        h \<in> set (ray_hits T w ray) \<and> distance h < d \<and>
        (\<forall>c\<in>set (ray_hits T w ray). distance h \<le> distance c))"
  using raycast_None_iff [of T w ray d] raycast_SomeD [of T w ray d] by blast

theorem raycast_closest_witness:
  "raycast (floors real) two_floors down_ray 10 =
     Some \<lparr>point = Vector3 0 1 0, face = (), faceIndex = 0, uv = None, uv2 = None,
       distance = 2, object = 1\<rparr> \<and>
   raycast (floors real) two_floors down_ray 2 = None"
proof -
  have "raycast (floors real) two_floors down_ray 10 \<noteq> None"
    using raycast_closest [of "floors real" two_floors down_ray 10]
    by (simp add: ray_hits_two_floors)
  then obtain h where h: "raycast (floors real) two_floors down_ray 10 = Some h" by blast
  with raycast_closest [of "floors real" two_floors down_ray 10]
  have "h \<in> set (ray_hits (floors real) two_floors down_ray)"
    "\<forall>c\<in>set (ray_hits (floors real) two_floors down_ray). distance h \<le> distance c"
    by simp_all
  then have "h = \<lparr>point = Vector3 0 1 0, face = (), faceIndex = 0, uv = None, uv2 = None,
       distance = 2, object = 1\<rparr>"
    by (auto simp: ray_hits_two_floors)
  moreover have "raycast (floors real) two_floors down_ray 2 = None"
    using raycast_closest [of "floors real" two_floors down_ray 2]
    by (simp add: ray_hits_two_floors)
  ultimately show ?thesis using h by simp
qed

subsection \<open>The registry as a list of entries\<close>

lemma Map_has_keys: "Map_has es k \<longleftrightarrow> k \<in> set (Map_keys es)"
  by (simp add: Map_has_def Map_keys_def map_of_eq_None_iff)

lemma Map_has_get: "Map_has es k \<longleftrightarrow> (\<exists>v. Map_get es k = Some v)"
  by (simp add: Map_has_def Map_get_def)

lemma Map_get_set: "Map_get (Map_set k v es) k' = (if k' = k then Some v else Map_get es k')"
  by (induction es) (auto simp: Map_get_def)

lemma Map_keys_delete: "Map_keys (Map_delete k es) = filter (\<lambda>j. j \<noteq> k) (Map_keys es)"
  by (induction es) (auto simp: Map_keys_def Map_delete_def)

lemma Map_get_delete: "Map_get (Map_delete k es) k' = (if k' = k then None else Map_get es k')"
  by (induction es) (auto simp: Map_get_def Map_delete_def)

subsection \<open>The four paths of buildBVH\<close>

lemma buildBVH_no_geometry:
  "geometry w m = None \<Longrightarrow>
   buildBVH T m w = (None, w\<lparr>console := console w @ [Warn ''BVHManager: Mesh has no geometry'' m]\<rparr>)"
  by (simp add: buildBVH_def)

lemma buildBVH_cached_eq:
  "geometry w m = Some r \<Longrightarrow> Map_get (bvhMeshes w) m = Some e \<Longrightarrow> buildBVH T m w = (Some e, w)"
  by (simp add: buildBVH_def Map_has_get)

lemma buildBVH_throws:
  assumes "geometry w m = Some r" "\<not> Map_has (bvhMeshes w) m"
    "fst (constructed T r (geometries w)) = Inl err"
  shows "buildBVH T m w =
    (None, w\<lparr>geometry := (geometry w)(m := Some (fst (prepared T r (geometries w)))),
             geometries := written T r (geometries w),
             console := console w @ [Error ''BVHManager: Failed to build BVH'' err m]\<rparr>)"
proof -
  have g: "(geometry w)(m := Some r) = geometry w" using assms(1) by auto
  show ?thesis
  proof (cases "index (geometries w r) = None")
    case True
    then show ?thesis using assms
      by (simp add: buildBVH_def buildBVH_try_def prepared_def constructed_def written_def Let_def)
  next
    case False
    then obtain ix where "index (geometries w r) = Some ix" by auto
    then show ?thesis using assms
      by (simp add: buildBVH_def buildBVH_try_def prepared_def constructed_def written_def Let_def g)
  qed
qed

lemma Map_set_twice_new:
  "k \<notin> set (Map_keys es) \<Longrightarrow> Map_set k v (Map_set k v' es) = es @ [(k, v)]"
  by (induction es) (auto simp: Map_keys_def)

lemma buildBVH_builds:
  assumes "geometry w m = Some r" "\<not> Map_has (bvhMeshes w) m"
    "fst (constructed T r (geometries w)) = Inr b"
  shows "buildBVH T m w =
    (Some \<lparr>mesh = m, bvh = b, invMatrixWorld = invert T (updateMatrixWorld T m (matrixWorld w) m)\<rparr>,
     w\<lparr>geometry := (geometry w)(m := Some (fst (prepared T r (geometries w)))),
       geometries := written T r (geometries w),
       bvhMeshes := bvhMeshes w @ [(m, \<lparr>mesh = m, bvh = b,
           invMatrixWorld = invert T (updateMatrixWorld T m (matrixWorld w) m)\<rparr>)],
       matrixWorld := updateMatrixWorld T m (matrixWorld w)\<rparr>)"
proof -
  have k: "m \<notin> set (Map_keys (bvhMeshes w))" using assms(2) by (simp add: Map_has_keys)
  have g: "(geometry w)(m := Some r) = geometry w" using assms(1) by auto
  show ?thesis
  proof (cases "index (geometries w r) = None")
    case True
    then show ?thesis using assms
      by (simp add: buildBVH_def buildBVH_try_def prepared_def constructed_def written_def Let_def
          Map_set_twice_new [OF k])
  next
    case False
    then obtain ix where "index (geometries w r) = Some ix" by auto
    then show ?thesis using assms
      by (simp add: buildBVH_def buildBVH_try_def prepared_def constructed_def written_def Let_def
          Map_set_twice_new [OF k] g)
  qed
qed



lemma buildBVH_cases [case_names NoGeometry Cached Throws Builds]:
  obtains
    "geometry w m = None"
  | r e where "geometry w m = Some r" "Map_get (bvhMeshes w) m = Some e"
  | r err where "geometry w m = Some r" "\<not> Map_has (bvhMeshes w) m"
      "fst (constructed T r (geometries w)) = Inl err"
  | r b where "geometry w m = Some r" "\<not> Map_has (bvhMeshes w) m"
      "fst (constructed T r (geometries w)) = Inr b"
proof (cases "geometry w m")
  case None
  then show ?thesis using that(1) by simp
next
  case (Some r)
  show ?thesis
  proof (cases "Map_has (bvhMeshes w) m")
    case True
    then show ?thesis using Some that(2) by (auto simp: Map_has_get)
  next
    case False
    then show ?thesis using Some that(3,4)
      by (cases "fst (constructed T r (geometries w))") auto
  qed
qed

lemma Map_get_append_new:
  "\<not> Map_has es k \<Longrightarrow> Map_get (es @ [(k, v)]) k' = (if k' = k then Some v else Map_get es k')"
  by (auto simp: Map_get_def Map_has_def map_add_def split: option.splits)

lemma buildBVH_Some_registered:
  assumes "fst (buildBVH T m w) = Some e"
  shows "Map_get (bvhMeshes (snd (buildBVH T m w))) m = Some e
     \<and> geometry (snd (buildBVH T m w)) m \<noteq> None"
proof (cases rule: buildBVH_cases [where w = w and m = m and T = T])
  case NoGeometry
  then show ?thesis using assms by (simp add: buildBVH_no_geometry)
next
  case (Cached r e')
  then show ?thesis using assms by (simp add: buildBVH_cached_eq)
next
  case (Throws r err)
  then show ?thesis using assms by (simp add: buildBVH_throws)
next
  case (Builds r b)
  then show ?thesis using assms
    by (auto simp: buildBVH_builds Map_get_append_new)
qed


lemma buildBVH_None_registry:
  assumes "fst (buildBVH T m w) = None"
  shows "bvhMeshes (snd (buildBVH T m w)) = bvhMeshes w \<and>
         matrixWorld (snd (buildBVH T m w)) = matrixWorld w"
proof (cases rule: buildBVH_cases [where w = w and m = m and T = T])
  case NoGeometry
  then show ?thesis by (simp add: buildBVH_no_geometry)
next
  case (Cached r e')
  then show ?thesis by (simp add: buildBVH_cached_eq)
next
  case (Throws r err)
  then show ?thesis by (simp add: buildBVH_throws)
next
  case (Builds r b)
  then show ?thesis using assms by (simp add: buildBVH_builds)
qed

subsection \<open>Queries read the registry and the world matrices only\<close>

lemma raycast_cong:
  "bvhMeshes w' = bvhMeshes w \<Longrightarrow> matrixWorld w' = matrixWorld w \<Longrightarrow>
   raycast T w' = raycast T w"
proof -
  assume a: "bvhMeshes w' = bvhMeshes w" "matrixWorld w' = matrixWorld w"
  have "raycast_visit T w' = raycast_visit T w"
    by (intro ext) (simp add: raycast_visit_def Let_def a cong: option.case_cong)
  then show ?thesis by (intro ext) (simp add: raycast_def a)
qed

lemma sphereCast_cong:
  "bvhMeshes w' = bvhMeshes w \<Longrightarrow> matrixWorld w' = matrixWorld w \<Longrightarrow>
   sphereCast T w' = sphereCast T w"
proof -
  assume a: "bvhMeshes w' = bvhMeshes w" "matrixWorld w' = matrixWorld w"
  have "sphereCast_visit T w' = sphereCast_visit T w"
    by (intro ext) (simp add: sphereCast_visit_def Let_def a cong: option.case_cong if_cong)
  then show ?thesis by (intro ext) (simp add: sphereCast_def a)
qed

lemma getGroundHeight_cong:
  "bvhMeshes w' = bvhMeshes w \<Longrightarrow> matrixWorld w' = matrixWorld w \<Longrightarrow>
   getGroundHeight T w' = getGroundHeight T w"
proof -
  assume a: "bvhMeshes w' = bvhMeshes w" "matrixWorld w' = matrixWorld w"
  show ?thesis by (intro ext) (simp add: getGroundHeight_def raycast_cong [OF a])
qed

lemma isOnGround_cong:
  "bvhMeshes w' = bvhMeshes w \<Longrightarrow> matrixWorld w' = matrixWorld w \<Longrightarrow>
   isOnGround T w' = isOnGround T w"
proof -
  assume a: "bvhMeshes w' = bvhMeshes w" "matrixWorld w' = matrixWorld w"
  show ?thesis by (intro ext) (simp add: isOnGround_def getGroundHeight_cong [OF a])
qed

subsection \<open>More of the concrete scenes\<close>

lemma one_floor_eq:
  "one_floor = \<lparr>bvhMeshes = [(0, \<lparr>mesh = 0, bvh = 0, invMatrixWorld = 0\<rparr>)],
                  geometry = (\<lambda>k. Some k), geometries = (\<lambda>r. floor_geometry 0),
                  matrixWorld = (\<lambda>k. 0)(0 := 0), console = []\<rparr>"
  by (simp add: one_floor_def new_world_def buildBVH_def buildBVH_try_def floors_def
      floor_geometry_def fun_upd_const Map_has_def Map_get_def Let_def)

lemma stripped_floor_eq:
  "stripped_floor = \<lparr>bvhMeshes = [(0, \<lparr>mesh = 0, bvh = 0, invMatrixWorld = 0\<rparr>)],
                  geometry = (\<lambda>k. None), geometries = (\<lambda>r. floor_geometry 0),
                  matrixWorld = (\<lambda>k. 0), console = []\<rparr>"
  by (simp add: stripped_floor_def new_world_def buildBVH_def buildBVH_try_def floors_def
      floor_geometry_def fun_upd_const Map_has_def Map_get_def Let_def)

lemma broken_0: "geometry broken_meshes 0 = None"
  by (simp add: broken_meshes_def new_world_def)

lemma broken_1:
  "geometry broken_meshes 1 = Some 1 \<and>
   \<not> Map_has (bvhMeshes broken_meshes) 1 \<and>
   fst (constructed (floors real) 1 (geometries broken_meshes)) = Inl ''no position attribute''"
  by (simp add: broken_meshes_def new_world_def Map_has_def floors_def prepared_def
      constructed_def)

subsection \<open>Claims about buildBVH\<close>

text \<open>
  Counterexample to C2 as written: \<^verbatim>\<open>buildBVH\<close> tests for a missing geometry
  before it looks into the registry, so for a registered mesh that has lost its geometry
  it warns and returns null, not the cached entry.
\<close>

theorem buildBVH_cached_counterexample:
  "Map_get (bvhMeshes stripped_floor) 0 = Some \<lparr>mesh = 0, bvh = 0, invMatrixWorld = 0\<rparr> \<and>
   fst (buildBVH (floors real) 0 stripped_floor) = None"
  by (simp add: stripped_floor_eq Map_get_def buildBVH_def)

text \<open>
  C2. For every mesh \<open>m\<close> in the registry that has a geometry, \<^verbatim>\<open>buildBVH(m)\<close> returns the
  cached entry and leaves the world as it is: nothing is built, whatever the library
  would do. After any call for \<open>m\<close> that returned an entry, a further call returns that
  same entry and changes nothing.
\<close>

theorem buildBVH_cached:
  "(Map_get (bvhMeshes w) m = Some e \<and> geometry w m \<noteq> None \<longrightarrow> buildBVH T m w = (Some e, w)) \<and>
   (fst (buildBVH T m w) = Some e \<longrightarrow>
      buildBVH T m (snd (buildBVH T m w)) = (Some e, snd (buildBVH T m w)))"
proof (intro conjI impI)
  assume "Map_get (bvhMeshes w) m = Some e \<and> geometry w m \<noteq> None"
  then show "buildBVH T m w = (Some e, w)"
    by (auto simp: buildBVH_cached_eq)
next
  assume "fst (buildBVH T m w) = Some e"
  from buildBVH_Some_registered [OF this]
  show "buildBVH T m (snd (buildBVH T m w)) = (Some e, snd (buildBVH T m w))"
    by (auto simp: buildBVH_cached_eq)
qed

theorem buildBVH_cached_witness:
  "Map_get (bvhMeshes two_floors) 1 = Some \<lparr>mesh = 1, bvh = 0, invMatrixWorld = - 1\<rparr> \<and>
   geometry two_floors 1 \<noteq> None \<and>
   buildBVH (floors real) 1 two_floors =
     (Some \<lparr>mesh = 1, bvh = 0, invMatrixWorld = - 1\<rparr>, two_floors) \<and>
   fst (buildBVH (floors real) 0 fresh_floors) = Some \<lparr>mesh = 0, bvh = 0, invMatrixWorld = 0\<rparr> \<and>
   buildBVH (floors real) 0 (snd (buildBVH (floors real) 0 fresh_floors)) =
     (Some \<lparr>mesh = 0, bvh = 0, invMatrixWorld = 0\<rparr>, snd (buildBVH (floors real) 0 fresh_floors))"
proof -
  have a: "Map_get (bvhMeshes two_floors) 1 = Some \<lparr>mesh = 1, bvh = 0, invMatrixWorld = - 1\<rparr>
      \<and> geometry two_floors 1 \<noteq> None"
    by (simp add: two_floors_eq Map_get_def)
  have b: "fst (buildBVH (floors real) 0 fresh_floors) =
      Some \<lparr>mesh = 0, bvh = 0, invMatrixWorld = 0\<rparr>"
    by (simp add: fresh_floors_def new_world_def buildBVH_def buildBVH_try_def floors_def
      floor_geometry_def fun_upd_const Map_has_def Map_get_def Let_def)
  show ?thesis
    using a b
      buildBVH_cached [of two_floors 1 "\<lparr>mesh = 1, bvh = 0, invMatrixWorld = - 1\<rparr>" "floors real"]
      buildBVH_cached [of fresh_floors 0 "\<lparr>mesh = 0, bvh = 0, invMatrixWorld = 0\<rparr>" "floors real"]
    by simp
qed

text \<open>
  C5. \<^verbatim>\<open>buildBVH(m)\<close> returns null exactly when the mesh has no geometry, or the mesh is
  not registered and the construction of the acceleration structure (on the geometry
  of the mesh, after the conversion when it has no index buffer) throws; otherwise it
  returns the entry the registry holds for \<open>m\<close>. The first failure appends a warning to
  the console, the second an error, the registry stays as it was, and the result is a
  value in both cases: no exception leaves the function.
\<close>

theorem buildBVH_null_cases:
  "(fst (buildBVH T m w) = None \<longleftrightarrow>
      geometry w m = None \<or>
      (\<exists>r err. geometry w m = Some r \<and> \<not> Map_has (bvhMeshes w) m \<and>
         fst (constructed T r (geometries w)) = Inl err)) \<and>
   (\<forall>e. fst (buildBVH T m w) = Some e \<longrightarrow>
      Map_get (bvhMeshes (snd (buildBVH T m w))) m = Some e) \<and>
   (geometry w m = None \<longrightarrow>
      console (snd (buildBVH T m w)) =
        console w @ [Warn ''BVHManager: Mesh has no geometry'' m] \<and>
      bvhMeshes (snd (buildBVH T m w)) = bvhMeshes w) \<and>
   (\<forall>r err. geometry w m = Some r \<and> \<not> Map_has (bvhMeshes w) m \<and>
         fst (constructed T r (geometries w)) = Inl err \<longrightarrow>
      console (snd (buildBVH T m w)) =
        console w @ [Error ''BVHManager: Failed to build BVH'' err m] \<and>
      bvhMeshes (snd (buildBVH T m w)) = bvhMeshes w)"
proof (intro conjI allI impI)
  show "fst (buildBVH T m w) = None \<longleftrightarrow>
      geometry w m = None \<or>
      (\<exists>r err. geometry w m = Some r \<and> \<not> Map_has (bvhMeshes w) m \<and>
         fst (constructed T r (geometries w)) = Inl err)"
  proof (cases rule: buildBVH_cases [where w = w and m = m and T = T])
    case NoGeometry
    then show ?thesis by (simp add: buildBVH_no_geometry)
  next
    case (Cached r e')
    then show ?thesis by (simp add: buildBVH_cached_eq Map_has_get)
  next
    case (Throws r err)
    then show ?thesis by (simp add: buildBVH_throws)
  next
    case (Builds r b)
    then show ?thesis by (simp add: buildBVH_builds)
  qed
next
  fix e assume "fst (buildBVH T m w) = Some e"
  from buildBVH_Some_registered [OF this]
  show "Map_get (bvhMeshes (snd (buildBVH T m w))) m = Some e" by simp
next
  assume "geometry w m = None"
  then show "console (snd (buildBVH T m w)) =
        console w @ [Warn ''BVHManager: Mesh has no geometry'' m]"
    "bvhMeshes (snd (buildBVH T m w)) = bvhMeshes w"
    by (simp_all add: buildBVH_no_geometry)
next
  fix r err
  assume "geometry w m = Some r \<and> \<not> Map_has (bvhMeshes w) m \<and>
         fst (constructed T r (geometries w)) = Inl err"
  then show "console (snd (buildBVH T m w)) =
        console w @ [Error ''BVHManager: Failed to build BVH'' err m]"
    "bvhMeshes (snd (buildBVH T m w)) = bvhMeshes w"
    by (simp_all add: buildBVH_throws)
qed

theorem buildBVH_null_cases_witness:
  "fst (buildBVH (floors real) 0 broken_meshes) = None \<and>
   console (snd (buildBVH (floors real) 0 broken_meshes)) =
     [Warn ''BVHManager: Mesh has no geometry'' 0] \<and>
   fst (buildBVH (floors real) 1 broken_meshes) = None \<and>
   console (snd (buildBVH (floors real) 1 broken_meshes)) =
     [Error ''BVHManager: Failed to build BVH'' ''no position attribute'' 1] \<and>
   fst (buildBVH (floors real) 2 broken_meshes) \<noteq> None \<and>
   Map_get (bvhMeshes (snd (buildBVH (floors real) 2 broken_meshes))) 2 =
     fst (buildBVH (floors real) 2 broken_meshes)"
proof -
  have c: "console broken_meshes = []" by (simp add: broken_meshes_def new_world_def)
  have g2: "geometry broken_meshes 2 = Some 2"
    by (simp add: broken_meshes_def new_world_def)
  have n2: "\<forall>err. fst (constructed (floors real) 2 (geometries broken_meshes)) \<noteq> Inl err"
    by (simp add: floors_def prepared_def constructed_def floor_geometry_def broken_meshes_def
        new_world_def)
  from buildBVH_null_cases [of "floors real" 0 broken_meshes] broken_0 c
  have "fst (buildBVH (floors real) 0 broken_meshes) = None"
    "console (snd (buildBVH (floors real) 0 broken_meshes)) =
     [Warn ''BVHManager: Mesh has no geometry'' 0]" by simp_all
  moreover from buildBVH_null_cases [of "floors real" 1 broken_meshes] broken_1 c
  have "fst (buildBVH (floors real) 1 broken_meshes) = None"
    "console (snd (buildBVH (floors real) 1 broken_meshes)) =
     [Error ''BVHManager: Failed to build BVH'' ''no position attribute'' 1]" by simp_all
  moreover from buildBVH_null_cases [of "floors real" 2 broken_meshes] g2 n2
  have "fst (buildBVH (floors real) 2 broken_meshes) \<noteq> None" by simp
  moreover from this buildBVH_null_cases [of "floors real" 2 broken_meshes]
  have "Map_get (bvhMeshes (snd (buildBVH (floors real) 2 broken_meshes))) 2 =
     fst (buildBVH (floors real) 2 broken_meshes)" by auto
  ultimately show ?thesis by simp
qed

text \<open>
  C8. If \<open>m\<close> has no registry entry and \<^verbatim>\<open>buildBVH(m)\<close> returns null, the registry is
  unchanged, \<open>m\<close> still has no entry, the world matrices are unchanged, and each of the
  four queries is the same function of its arguments as before the call.
\<close>

theorem buildBVH_null_unchanged:
  assumes "\<not> Map_has (bvhMeshes w) m" and "fst (buildBVH T m w) = None"
  shows "bvhMeshes (snd (buildBVH T m w)) = bvhMeshes w \<and>
         \<not> Map_has (bvhMeshes (snd (buildBVH T m w))) m \<and>
         matrixWorld (snd (buildBVH T m w)) = matrixWorld w \<and>
         raycast T (snd (buildBVH T m w)) = raycast T w \<and>
         sphereCast T (snd (buildBVH T m w)) = sphereCast T w \<and>
         getGroundHeight T (snd (buildBVH T m w)) = getGroundHeight T w \<and>
         isOnGround T (snd (buildBVH T m w)) = isOnGround T w"
proof -
  from buildBVH_None_registry [OF assms(2)]
  have a: "bvhMeshes (snd (buildBVH T m w)) = bvhMeshes w"
    "matrixWorld (snd (buildBVH T m w)) = matrixWorld w" by simp_all
  show ?thesis
    using assms(1) a raycast_cong [OF a, where T = T] sphereCast_cong [OF a, where T = T]
      getGroundHeight_cong [OF a, where T = T] isOnGround_cong [OF a, where T = T]
    by simp
qed

theorem buildBVH_null_unchanged_witness:
  "\<not> Map_has (bvhMeshes broken_meshes) 1 \<and> fst (buildBVH (floors real) 1 broken_meshes) = None \<and>
   bvhMeshes (snd (buildBVH (floors real) 1 broken_meshes)) = [] \<and>
   raycast (floors real) (snd (buildBVH (floors real) 1 broken_meshes)) down_ray 10 = None"
proof -
  have a: "\<not> Map_has (bvhMeshes broken_meshes) 1" using broken_1 by simp
  have b: "fst (buildBVH (floors real) 1 broken_meshes) = None"
    using broken_1
      buildBVH_throws [of broken_meshes 1 1 "floors real"]
    by simp
  have c: "bvhMeshes broken_meshes = []" by (simp add: broken_meshes_def new_world_def)
  have d: "raycast (floors real) broken_meshes down_ray 10 = None"
    by (simp add: raycast_def c)
  show ?thesis using buildBVH_null_unchanged [OF a b] a b c d by simp
qed

text \<open>
  Counterexample to C9 as written: on a successful first registration
  \<^verbatim>\<open>buildBVH\<close> calls \<^verbatim>\<open>mesh.updateMatrixWorld(true)\<close>, which rewrites the world matrix of the
  mesh, also when its geometry has an index buffer. Here mesh 1 was placed at height 1
  and its world matrix not refreshed since.
\<close>

theorem buildBVH_frame_counterexample:
  "geometry fresh_floors 1 = Some 1 \<and>
   index (geometries fresh_floors 1) = Some [0, 1, 2, 0, 2, 3] \<and>
   matrixWorld fresh_floors 1 = 0 \<and>
   matrixWorld (snd (buildBVH (floors real) 1 fresh_floors)) 1 = 1"
  by (simp add: fresh_floors_def new_world_def buildBVH_def buildBVH_try_def floors_def
      floor_geometry_def fun_upd_const Map_has_def Map_get_def Let_def)

text \<open>
  C9. \<^verbatim>\<open>buildBVH(m)\<close> never changes the field \<^verbatim>\<open>geometry\<close> of another mesh. It reassigns
  the field of \<open>m\<close> to the result of the non-indexed conversion exactly when \<open>m\<close> has a
  geometry without index buffer and is not registered yet; in every other case the field
  of \<open>m\<close> stays as it is. The registry entries of other meshes are not modified. The
  world matrices are those that \<^verbatim>\<open>updateMatrixWorld\<close> leaves when a new entry was built,
  and unchanged otherwise. The geometry objects are untouched when nothing is built (no
  geometry, or registered already); otherwise they are as the conversion and the
  constructor leave them: the constructor writes the geometry object it receives, which
  every mesh that holds this object sees, and when the geometry has an index buffer
  this is the only object written.
\<close>

theorem buildBVH_frame:
  "(\<forall>k. k \<noteq> m \<longrightarrow> geometry (snd (buildBVH T m w)) k = geometry w k) \<and>
   geometry (snd (buildBVH T m w)) m =
     (case geometry w m of
        None \<Rightarrow> None
      | Some r \<Rightarrow> if \<not> Map_has (bvhMeshes w) m \<and> index (geometries w r) = None
                  then Some (fst (toNonIndexed T r (geometries w))) else Some r) \<and>
   (\<forall>k. k \<noteq> m \<longrightarrow> Map_get (bvhMeshes (snd (buildBVH T m w))) k = Map_get (bvhMeshes w) k) \<and>
   matrixWorld (snd (buildBVH T m w)) =
     (if \<not> Map_has (bvhMeshes w) m \<and> fst (buildBVH T m w) \<noteq> None
      then updateMatrixWorld T m (matrixWorld w) else matrixWorld w) \<and>
   geometries (snd (buildBVH T m w)) =
     (case geometry w m of
        None \<Rightarrow> geometries w
      | Some r \<Rightarrow> if Map_has (bvhMeshes w) m then geometries w
                  else written T r (geometries w)) \<and>
   (\<forall>r q. geometry w m = Some r \<and> index (geometries w r) \<noteq> None \<and> q \<noteq> r \<longrightarrow>
      geometries (snd (buildBVH T m w)) q = geometries w q)"
proof (cases rule: buildBVH_cases [where w = w and m = m and T = T])
  case NoGeometry
  then show ?thesis by (simp add: buildBVH_no_geometry)
next
  case (Cached r e')
  then show ?thesis by (simp add: buildBVH_cached_eq Map_has_get)
next
  case (Throws r err)
  then show ?thesis by (auto simp: buildBVH_throws prepared_def written_def)
next
  case (Builds r b)
  then show ?thesis
    by (auto simp: buildBVH_builds prepared_def written_def Map_get_append_new)
qed

theorem buildBVH_frame_witness:
  "geometry (snd (buildBVH (floors real) 1 shared_floor)) 2 = Some 7 \<and>
   geometry (snd (buildBVH (floors real) 1 shared_floor)) 1 = Some 7 \<and>
   geometries shared_floor 7 = \<lparr>index = None, attributes = Some 0\<rparr> \<and>
   geometries (snd (buildBVH (floors real) 1 shared_floor)) 7 =
     \<lparr>index = Some [0, 1, 2, 3, 4, 5], attributes = Some 0\<rparr> \<and>
   geometries (snd (buildBVH (floors real) 1 fresh_floors)) 2 = geometries fresh_floors 2 \<and>
   Map_get (bvhMeshes (snd (buildBVH (floors real) 1 two_floors))) 0 =
     Some \<lparr>mesh = 0, bvh = 0, invMatrixWorld = 0\<rparr> \<and>
   matrixWorld (snd (buildBVH (floors real) 1 fresh_floors)) = (\<lambda>k. 0)(1 := 1)"
proof -
  have f: "\<not> Map_has (bvhMeshes fresh_floors) 1 \<and>
      fst (buildBVH (floors real) 1 fresh_floors) \<noteq> None \<and> matrixWorld fresh_floors = (\<lambda>k. 0)"
    by (simp add: fresh_floors_def new_world_def buildBVH_def buildBVH_try_def floors_def
      floor_geometry_def fun_upd_const Map_has_def Map_get_def Let_def)
  have f1: "geometry fresh_floors 1 = Some 1 \<and> index (geometries fresh_floors 1) \<noteq> None"
    by (simp add: fresh_floors_def new_world_def floor_geometry_def)
  have sh: "geometry shared_floor 1 = Some 7 \<and> geometry shared_floor 2 = Some 7 \<and>
      \<not> Map_has (bvhMeshes shared_floor) 1 \<and>
      geometries shared_floor 7 = \<lparr>index = None, attributes = Some 0\<rparr>"
    by (simp add: shared_floor_def new_world_def Map_has_def)
  have wr: "written (floors real) 7 (geometries shared_floor) 7 =
      \<lparr>index = Some [0, 1, 2, 3, 4, 5], attributes = Some 0\<rparr>"
    by (simp add: written_def prepared_def constructed_def floors_def shared_floor_def
        new_world_def)
  have t: "Map_get (bvhMeshes two_floors) 0 = Some \<lparr>mesh = 0, bvh = 0, invMatrixWorld = 0\<rparr>"
    by (simp add: two_floors_eq Map_get_def)
  have "geometry (snd (buildBVH (floors real) 1 shared_floor)) 2 = Some 7"
    using buildBVH_frame [of 1 "floors real" shared_floor] sh by simp
  moreover have "geometry (snd (buildBVH (floors real) 1 shared_floor)) 1 = Some 7"
    using buildBVH_frame [of 1 "floors real" shared_floor] sh by (simp add: floors_def)
  moreover have "geometries (snd (buildBVH (floors real) 1 shared_floor)) 7 =
     \<lparr>index = Some [0, 1, 2, 3, 4, 5], attributes = Some 0\<rparr>"
    using buildBVH_frame [of 1 "floors real" shared_floor] sh wr by simp
  moreover have "geometries (snd (buildBVH (floors real) 1 fresh_floors)) 2 =
      geometries fresh_floors 2"
    using buildBVH_frame [of 1 "floors real" fresh_floors] f1 by auto
  moreover have "Map_get (bvhMeshes (snd (buildBVH (floors real) 1 two_floors))) 0 =
     Some \<lparr>mesh = 0, bvh = 0, invMatrixWorld = 0\<rparr>"
    using buildBVH_frame [of 1 "floors real" two_floors] t by simp
  moreover have "matrixWorld (snd (buildBVH (floors real) 1 fresh_floors)) = (\<lambda>k. 0)(1 := 1)"
    using buildBVH_frame [of 1 "floors real" fresh_floors] f by (simp add: floors_def)
  ultimately show ?thesis using sh by simp
qed

subsection \<open>The sphere scan and where hits come from\<close>

lemma in_set_map_filter: "c \<in> set (List.map_filter f xs) \<longleftrightarrow> (\<exists>x\<in>set xs. f x = Some c)"
  by (induction xs) (auto split: option.splits)


lemma sphereCast_fold:
  "sphereCast T w s dir d =
     fst (fold (\<lambda>c. keep_closer (Some c)) (sphere_hits T w s dir d) (None, d))"
proof -
  have "sphereCast_visit T w s dir d = (\<lambda>en. keep_closer (sphere_hit T w s dir d (snd en)))"
    by (rule ext, rule ext) (rule sphereCast_visit_keep)
  then have "sphereCast T w s dir d =
      fst (fold (\<lambda>en. keep_closer (sphere_hit T w s dir d (snd en))) (bvhMeshes w) (None, d))"
    by (simp only: sphereCast_def)
  also have "\<dots> = fst (fold (\<lambda>c. keep_closer (Some c)) (sphere_hits T w s dir d) (None, d))"
    unfolding sphere_hits_def
    by (rule arg_cong [where f = fst]) (rule fold_keep_closer_map_filter)
  finally show ?thesis .
qed

lemma sphereCast_None_iff:
  "sphereCast T w s dir d = None \<longleftrightarrow> (\<forall>c\<in>set (sphere_hits T w s dir d). \<not> distance c < d)"
  unfolding sphereCast_fold by (simp only: fold_closer_None simp_thms)

lemma sphereCast_SomeD:
  assumes "sphereCast T w s dir d = Some h"
  shows "h \<in> set (sphere_hits T w s dir d)" "distance h < d"
    "\<forall>c\<in>set (sphere_hits T w s dir d). distance h \<le> distance c"
proof -
  from assms
  have *: "fst (fold (\<lambda>c. keep_closer (Some c)) (sphere_hits T w s dir d) (None, d)) = Some h"
    by (simp only: sphereCast_fold)
  from fold_closer_Some [OF *]
  show "h \<in> set (sphere_hits T w s dir d)" "distance h < d"
    "\<forall>c\<in>set (sphere_hits T w s dir d). distance h \<le> distance c"
    by simp_all
qed

lemma sphere_hits_origin:
  assumes "c \<in> set (sphere_hits T w s dir d)"
  shows "\<exists>en\<in>set (bvhMeshes w). \<exists>lh.
      object c = mesh (snd en) \<and>
      intersectsBox T (bvh (snd en)) (swept_box T s dir d (snd en)) (newMatrix4 T) \<and>
      raycastFirst T (bvh (snd en))
        \<lparr>origin = applyMatrix4 T (center s) (invMatrixWorld (snd en)),
         direction = multiplyScalar
            (normalizeV (applyMatrix4 T dir (invMatrixWorld (snd en)))) d\<rparr> FrontSide = Some lh \<and>
      point c = applyMatrix4 T (point lh) (matrixWorld w (mesh (snd en))) \<and>
      distance c = distanceTo (center s) (point c)"
proof -
  from assms obtain en where en: "en \<in> set (bvhMeshes w)"
    and c: "sphere_hit T w s dir d (snd en) = Some c"
    by (auto simp: sphere_hits_def in_set_map_filter)
  from c show ?thesis
    by (intro bexI [OF _ en])
      (auto simp: sphere_hit_def local_center_def local_direction_def
        split: if_splits option.splits)
qed

lemma ray_hits_origin:
  assumes "c \<in> set (ray_hits T w ray)"
  shows "\<exists>en\<in>set (bvhMeshes w). object c = mesh (snd en)"
proof -
  from assms obtain en where en: "en \<in> set (bvhMeshes w)"
    and c: "ray_hit T w ray (snd en) = Some c"
    by (auto simp: ray_hits_def in_set_map_filter)
  from c show ?thesis
    by (intro bexI [OF _ en]) (auto simp: ray_hit_def split: option.splits)
qed

subsection \<open>The registry along a sequence of calls\<close>

lemma buildBVH_keys:
  "Map_keys (bvhMeshes (snd (buildBVH T k w))) =
     (if Map_has (bvhMeshes w) k \<or> fst (buildBVH T k w) = None then Map_keys (bvhMeshes w)
      else Map_keys (bvhMeshes w) @ [k])"
proof (cases rule: buildBVH_cases [where w = w and m = k and T = T])
  case NoGeometry
  then show ?thesis by (simp add: buildBVH_no_geometry)
next
  case (Cached r e')
  then show ?thesis by (simp add: buildBVH_cached_eq Map_has_get)
next
  case (Throws r err)
  then show ?thesis by (simp add: buildBVH_throws)
next
  case (Builds r b)
  then show ?thesis by (simp add: buildBVH_builds Map_keys_def)
qed

lemma buildBVH_Some_has: "fst (buildBVH T k w) \<noteq> None \<Longrightarrow> Map_has (bvhMeshes (snd (buildBVH T k w))) k"
  using buildBVH_Some_registered [of T k w] by (auto simp: Map_has_get)

lemma buildBVH_entries_ok:
  assumes "entries_ok (bvhMeshes w)"
  shows "entries_ok (bvhMeshes (snd (buildBVH T k w)))"
proof (cases rule: buildBVH_cases [where w = w and m = k and T = T])
  case NoGeometry
  then show ?thesis using assms by (simp add: buildBVH_no_geometry)
next
  case (Cached r e')
  then show ?thesis using assms by (simp add: buildBVH_cached_eq)
next
  case (Throws r err)
  then show ?thesis using assms by (simp add: buildBVH_throws)
next
  case (Builds r b)
  then show ?thesis using assms by (simp add: buildBVH_builds entries_ok_def)
qed

lemma updateMatrices_loop_keys:
  "map fst (fst (updateMatrices_loop T es mw)) = map fst es \<and>
   (entries_ok es \<longrightarrow> entries_ok (fst (updateMatrices_loop T es mw)))"
  by (induction T es mw rule: updateMatrices_loop.induct)
    (auto simp: Let_def entries_ok_def split: prod.splits)

lemma updateMatrices_keys: "Map_keys (bvhMeshes (updateMatrices T w)) = Map_keys (bvhMeshes w)"
  using updateMatrices_loop_keys [of T "bvhMeshes w" "matrixWorld w"]
  by (cases "updateMatrices_loop T (bvhMeshes w) (matrixWorld w)")
    (simp add: updateMatrices_def Map_keys_def)

lemma updateMatrices_entries_ok:
  "entries_ok (bvhMeshes w) \<Longrightarrow> entries_ok (bvhMeshes (updateMatrices T w))"
  using updateMatrices_loop_keys [of T "bvhMeshes w" "matrixWorld w"]
  by (cases "updateMatrices_loop T (bvhMeshes w) (matrixWorld w)")
    (simp add: updateMatrices_def)

lemma exec_call_entries_ok:
  assumes "entries_ok (bvhMeshes w)"
  shows "entries_ok (bvhMeshes (exec_call T c w))"
proof (cases c)
  case (RemoveBVH k)
  then show ?thesis using assms by (auto simp: removeBVH_def entries_ok_def Map_delete_def)
next
  case Clear
  then show ?thesis by (simp add: clear_def entries_ok_def)
qed (use assms in \<open>simp_all add: buildBVH_entries_ok updateMatrices_entries_ok\<close>)

lemma exec_call_distinct:
  assumes "distinct (Map_keys (bvhMeshes w))"
  shows "distinct (Map_keys (bvhMeshes (exec_call T c w)))"
proof (cases c)
  case (BuildBVH k)
  then show ?thesis using assms by (auto simp: buildBVH_keys Map_has_keys)
next
  case (RemoveBVH k)
  then show ?thesis using assms by (simp add: removeBVH_def Map_keys_delete)
next
  case Clear
  then show ?thesis by (simp add: clear_def Map_keys_def)
qed (use assms in \<open>simp_all add: updateMatrices_keys\<close>)

lemma exec_call_has:
  "Map_has (bvhMeshes (exec_call T c w)) m \<longleftrightarrow>
     (case c of
        BuildBVH k \<Rightarrow> Map_has (bvhMeshes w) m \<or> (k = m \<and> fst (buildBVH T k w) \<noteq> None)
      | RemoveBVH k \<Rightarrow> Map_has (bvhMeshes w) m \<and> k \<noteq> m
      | Clear \<Rightarrow> False
      | _ \<Rightarrow> Map_has (bvhMeshes w) m)"
proof (cases c)
  case (BuildBVH k)
  then show ?thesis
    using buildBVH_Some_has [of T k w]
    by (auto simp: Map_has_keys buildBVH_keys split: if_splits)
next
  case (RemoveBVH k)
  then show ?thesis by (auto simp: Map_has_keys removeBVH_def Map_keys_delete)
next
  case UpdateMatrices
  then show ?thesis by (simp add: Map_has_keys updateMatrices_keys)
next
  case Clear
  then show ?thesis by (simp add: clear_def Map_has_def)
qed simp_all

lemma run_invariant:
  "distinct (Map_keys (bvhMeshes w)) \<Longrightarrow>
   distinct (Map_keys (bvhMeshes (run T cs w))) \<and>
   (Map_has (bvhMeshes (run T cs w)) m \<longleftrightarrow> spec_registered T m cs w (Map_has (bvhMeshes w) m))"
proof (induction cs arbitrary: w)
  case Nil
  then show ?case by simp
next
  case (Cons c cs)
  from Cons.IH [OF exec_call_distinct [OF Cons.prems, of T c]]
  show ?case by (simp add: exec_call_has [of T c w m])
qed

lemma new_world_empty: "bvhMeshes (new_world g gs mw) = []"
  by (simp add: new_world_def)

lemma run_append: "run T (cs @ cs') w = run T cs' (run T cs w)"
  by (induction cs arbitrary: w) simp_all

lemma run_entries_ok: "entries_ok (bvhMeshes w) \<Longrightarrow> entries_ok (bvhMeshes (run T cs w))"
  by (induction cs arbitrary: w) (simp_all add: exec_call_entries_ok)

lemma run_stays_removed:
  "BuildBVH m \<notin> set cs \<Longrightarrow> \<not> Map_has (bvhMeshes w) m \<Longrightarrow> \<not> Map_has (bvhMeshes (run T cs w)) m"
proof (induction cs arbitrary: w)
  case Nil
  then show ?case by simp
next
  case (Cons c cs)
  have "\<not> Map_has (bvhMeshes (exec_call T c w)) m"
    using Cons.prems exec_call_has [of T c w m] by (cases c) auto
  with Cons show ?case by simp
qed

lemma removed_world:
  assumes "BuildBVH m \<notin> set cs"
  shows "entries_ok (bvhMeshes (run T (cs0 @ RemoveBVH m # cs) (new_world g gs mw))) \<and>
     \<not> Map_has (bvhMeshes (run T (cs0 @ RemoveBVH m # cs) (new_world g gs mw))) m"
proof -
  have 1: "entries_ok (bvhMeshes (run T (cs0 @ RemoveBVH m # cs) (new_world g gs mw)))"
    by (rule run_entries_ok) (simp add: new_world_empty entries_ok_def)
  have "\<not> Map_has (bvhMeshes (removeBVH m (run T cs0 (new_world g gs mw)))) m"
    by (simp add: removeBVH_def Map_has_keys Map_keys_delete)
  from run_stays_removed [OF assms this, of T] 1 show ?thesis
    by (simp add: run_append)
qed

lemma ray_hits_not_removed:
  assumes "entries_ok (bvhMeshes w)" "\<not> Map_has (bvhMeshes w) m" "c \<in> set (ray_hits T w ray)"
  shows "object c \<noteq> m"
proof -
  from ray_hits_origin [OF assms(3)] obtain en where
    "en \<in> set (bvhMeshes w)" "object c = mesh (snd en)" by blast
  with assms(1,2) show ?thesis
    by (auto simp: entries_ok_def Map_has_keys Map_keys_def)
qed

lemma sphere_hits_not_removed:
  assumes "entries_ok (bvhMeshes w)" "\<not> Map_has (bvhMeshes w) m"
    "c \<in> set (sphere_hits T w s dir d)"
  shows "object c \<noteq> m"
proof -
  from sphere_hits_origin [OF assms(3)] obtain en where
    "en \<in> set (bvhMeshes w)" "object c = mesh (snd en)" by blast
  with assms(1,2) show ?thesis
    by (auto simp: entries_ok_def Map_has_keys Map_keys_def)
qed

lemma queries_ignore:
  assumes ok: "entries_ok (bvhMeshes w)" and no: "\<not> Map_has (bvhMeshes w) m"
  shows "(\<forall>ray d h. raycast T w ray d = Some h \<longrightarrow> object h \<noteq> m) \<and>
   (\<forall>s dir d h. sphereCast T w s dir d = Some h \<longrightarrow> object h \<noteq> m) \<and>
   (\<forall>ray. \<forall>c\<in>set (ray_hits T w ray). object c \<noteq> m) \<and>
   (\<forall>s dir d. \<forall>c\<in>set (sphere_hits T w s dir d). object c \<noteq> m) \<and>
   (\<forall>x z d gy. getGroundHeight T w x z d = Some gy \<longrightarrow>
      (\<exists>c\<in>set (ray_hits T w \<lparr>origin = Vector3 x d z, direction = Vector3 0 (- 1) 0\<rparr>).
         object c \<noteq> m \<and> vy (point c) = gy)) \<and>
   (\<forall>p th d. isOnGround T w p th d \<longrightarrow>
      (\<exists>c\<in>set (ray_hits T w \<lparr>origin = Vector3 (vx p) d (vz p), direction = Vector3 0 (- 1) 0\<rparr>).
         object c \<noteq> m \<and> \<bar>vy p - vy (point c)\<bar> < th))"
proof (intro conjI allI impI ballI)
  fix ray d h assume "raycast T w ray d = Some h"
  from raycast_SomeD(1) [OF this] show "object h \<noteq> m"
    by (rule ray_hits_not_removed [OF ok no])
next
  fix s dir d h assume "sphereCast T w s dir d = Some h"
  from sphereCast_SomeD(1) [OF this] show "object h \<noteq> m"
    by (rule sphere_hits_not_removed [OF ok no])
next
  fix ray c assume "c \<in> set (ray_hits T w ray)"
  then show "object c \<noteq> m" by (rule ray_hits_not_removed [OF ok no])
next
  fix s dir d c assume "c \<in> set (sphere_hits T w s dir d)"
  then show "object c \<noteq> m" by (rule sphere_hits_not_removed [OF ok no])
next
  fix x z d gy assume "getGroundHeight T w x z d = Some gy"
  then obtain h where
    h: "raycast T w \<lparr>origin = Vector3 x d z, direction = Vector3 0 (- 1) 0\<rparr> (d * 2) = Some h"
    and gy: "gy = vy (point h)"
    by (auto simp: getGroundHeight_def split: option.splits)
  from raycast_SomeD(1) [OF h] ray_hits_not_removed [OF ok no] gy
  show "\<exists>c\<in>set (ray_hits T w \<lparr>origin = Vector3 x d z, direction = Vector3 0 (- 1) 0\<rparr>).
         object c \<noteq> m \<and> vy (point c) = gy"
    by blast
next
  fix p th d assume "isOnGround T w p th d"
  then obtain h where
    h: "raycast T w \<lparr>origin = Vector3 (vx p) d (vz p), direction = Vector3 0 (- 1) 0\<rparr> (d * 2)
          = Some h"
    and th: "\<bar>vy p - vy (point h)\<bar> < th"
    by (auto simp: isOnGround_def getGroundHeight_def split: option.splits)
  from raycast_SomeD(1) [OF h] ray_hits_not_removed [OF ok no] th
  show "\<exists>c\<in>set (ray_hits T w \<lparr>origin = Vector3 (vx p) d (vz p), direction = Vector3 0 (- 1) 0\<rparr>).
         object c \<noteq> m \<and> \<bar>vy p - vy (point c)\<bar> < th"
    by blast
qed

subsection \<open>The remaining scenes, evaluated\<close>

lemma ground_probe_one_floor:
  "ray_hits (floors real) one_floor \<lparr>origin = Vector3 0 2 0, direction = Vector3 0 (- 1) 0\<rparr> =
     [\<lparr>point = Vector3 0 0 0, face = (), faceIndex = 0, uv = None, uv2 = None,
       distance = 2, object = 0\<rparr>]"
  by (simp add: one_floor_eq ray_hits_def ray_hit_def floors_def
      Ray_applyMatrix4_def normalizeV_def multiplyScalar_def vlength_down
      distanceTo_vertical)

lemma getGroundHeight_one_floor: "getGroundHeight (floors real) one_floor 0 0 2 = Some 0"
  by (simp add: getGroundHeight_def raycast_fold ground_probe_one_floor keep_closer_def)

lemma deep_floor_eq:
  "deep_floor = \<lparr>bvhMeshes = [(0, \<lparr>mesh = 0, bvh = 0, invMatrixWorld = 3\<rparr>)],
                  geometry = (\<lambda>k. Some k), geometries = (\<lambda>r. floor_geometry 0),
                  matrixWorld = (\<lambda>k. 0)(0 := - 3), console = []\<rparr>"
  by (simp add: deep_floor_def new_world_def buildBVH_def buildBVH_try_def floors_def
      floor_geometry_def fun_upd_const Map_has_def Map_get_def Let_def)

lemma ground_probe_deep_floor:
  "ray_hits (floors (\<lambda>k. - 3)) deep_floor \<lparr>origin = Vector3 0 d 0, direction = Vector3 0 (- 1) 0\<rparr> =
     (if - 3 < d then [\<lparr>point = Vector3 0 (- 3) 0, face = (), faceIndex = 0, uv = None, uv2 = None,
       distance = \<bar>d + 3\<bar>, object = 0\<rparr>] else [])"
  by (simp add: deep_floor_eq ray_hits_def ray_hit_def floors_def
      Ray_applyMatrix4_def normalizeV_def multiplyScalar_def vlength_down
      distanceTo_vertical)

lemma vlength_vertical: "vlength (Vector3 0 b 0) = \<bar>b\<bar>"
  by (simp add: vlength_def)

lemma raised_floor_eq:
  "raised_floor = \<lparr>bvhMeshes = [(0, \<lparr>mesh = 0, bvh = 0, invMatrixWorld = - 5\<rparr>)],
                  geometry = (\<lambda>k. Some k), geometries = (\<lambda>r. floor_geometry 0),
                  matrixWorld = (\<lambda>k. 0)(0 := 5), console = []\<rparr>"
  by (simp add: raised_floor_def new_world_def buildBVH_def buildBVH_try_def floors_def
      floor_geometry_def fun_upd_const Map_has_def Map_get_def Let_def)

lemma after_removal_eq:
  "after_removal = \<lparr>bvhMeshes = [(0, \<lparr>mesh = 0, bvh = 0, invMatrixWorld = 0\<rparr>)],
                  geometry = (\<lambda>k. Some k), geometries = (\<lambda>r. floor_geometry 0),
                  matrixWorld = (\<lambda>k. 0)(1 := 1, 0 := 0), console = []\<rparr>"
  by (simp add: after_removal_def new_world_def buildBVH_def buildBVH_try_def floors_def
      floor_geometry_def fun_upd_const Map_has_def Map_get_def Let_def removeBVH_def Map_delete_def
      updateMatrices_def)

subsection \<open>Claims about the queries and the registry\<close>

text \<open>
  C3. Take any sequence of calls on a new manager in which \<^verbatim>\<open>removeBVH(m)\<close> occurs and is
  followed by calls among which there is no \<^verbatim>\<open>buildBVH(m)\<close>. In the world \<open>w\<close> it
  leads to, \<open>m\<close> has no entry; no intersection that \<^verbatim>\<open>raycast\<close> or \<^verbatim>\<open>sphereCast\<close>
  returns has \<open>m\<close> as its object; no per-mesh hit of either query lies on \<open>m\<close>; and every
  height that \<^verbatim>\<open>getGroundHeight\<close> returns, and every positive answer of \<^verbatim>\<open>isOnGround\<close>,
  comes from a hit on a mesh other than \<open>m\<close>.
\<close>

theorem removeBVH_ignored:
  assumes "BuildBVH m \<notin> set cs"
    and "w = run T (cs0 @ RemoveBVH m # cs) (new_world g gs mw)"
  shows "\<not> Map_has (bvhMeshes w) m \<and>
   (\<forall>ray d h. raycast T w ray d = Some h \<longrightarrow> object h \<noteq> m) \<and>
   (\<forall>s dir d h. sphereCast T w s dir d = Some h \<longrightarrow> object h \<noteq> m) \<and>
   (\<forall>ray. \<forall>c\<in>set (ray_hits T w ray). object c \<noteq> m) \<and>
   (\<forall>s dir d. \<forall>c\<in>set (sphere_hits T w s dir d). object c \<noteq> m) \<and>
   (\<forall>x z d gy. getGroundHeight T w x z d = Some gy \<longrightarrow>
      (\<exists>c\<in>set (ray_hits T w \<lparr>origin = Vector3 x d z, direction = Vector3 0 (- 1) 0\<rparr>).
         object c \<noteq> m \<and> vy (point c) = gy)) \<and>
   (\<forall>p th d. isOnGround T w p th d \<longrightarrow>
      (\<exists>c\<in>set (ray_hits T w \<lparr>origin = Vector3 (vx p) d (vz p), direction = Vector3 0 (- 1) 0\<rparr>).
         object c \<noteq> m \<and> \<bar>vy p - vy (point c)\<bar> < th))"
proof -
  from removed_world [OF assms(1), of T cs0 g gs mw] assms(2)
  have ok: "entries_ok (bvhMeshes w)" and no: "\<not> Map_has (bvhMeshes w) m" by simp_all
  from queries_ignore [OF ok no, of T] no show ?thesis by blast
qed

theorem removeBVH_ignored_witness:
  "BuildBVH 1 \<notin> set [UpdateMatrices :: (real option, real) call] \<and>
   \<not> Map_has (bvhMeshes after_removal) 1 \<and>
   map object (ray_hits (floors real) after_removal down_ray) = [0] \<and>
   raycast (floors real) after_removal down_ray 10 =
     Some \<lparr>point = Vector3 0 0 0, face = (), faceIndex = 0, uv = None, uv2 = None,
       distance = 3, object = 0\<rparr>"
proof -
  have a: "BuildBVH 1 \<notin> set [UpdateMatrices :: (real option, real) call]" by simp
  have r: "ray_hits (floors real) after_removal down_ray =
     [\<lparr>point = Vector3 0 0 0, face = (), faceIndex = 0, uv = None, uv2 = None,
       distance = 3, object = 0\<rparr>]"
    by (simp add: after_removal_eq ray_hits_def ray_hit_def floors_def
      Ray_applyMatrix4_def down_ray_def normalizeV_def multiplyScalar_def vlength_down
      distanceTo_vertical)
  have c: "raycast (floors real) after_removal down_ray 10 =
     Some \<lparr>point = Vector3 0 0 0, face = (), faceIndex = 0, uv = None, uv2 = None,
       distance = 3, object = 0\<rparr>"
    by (simp add: raycast_fold r keep_closer_def)
  from removeBVH_ignored [OF a after_removal_def] a c r show ?thesis by simp
qed

text \<open>
  C4. \<^verbatim>\<open>getGroundHeight(x, z, maxDistance)\<close> casts the ray from \<open>(x, maxDistance, z)\<close>
  straight down. It returns the world Y coordinate of a per-mesh hit of that ray whose
  distance from the ray origin is minimal over all per-mesh hits and below
  \<open>2 * maxDistance\<close>, and null exactly when no per-mesh hit is that near.
\<close>

theorem getGroundHeight_nearest:
  "(getGroundHeight T w x z d = None \<longleftrightarrow>
      (\<forall>c\<in>set (ray_hits T w \<lparr>origin = Vector3 x d z, direction = Vector3 0 (- 1) 0\<rparr>).
          \<not> distance c < d * 2)) \<and>
   (\<forall>gy. getGroundHeight T w x z d = Some gy \<longrightarrow>
      (\<exists>h\<in>set (ray_hits T w \<lparr>origin = Vector3 x d z, direction = Vector3 0 (- 1) 0\<rparr>).
          gy = vy (point h) \<and> distance h < d * 2 \<and>
          (\<forall>c\<in>set (ray_hits T w \<lparr>origin = Vector3 x d z, direction = Vector3 0 (- 1) 0\<rparr>).
              distance h \<le> distance c)))"
proof (intro conjI allI impI)
  show "getGroundHeight T w x z d = None \<longleftrightarrow>
      (\<forall>c\<in>set (ray_hits T w \<lparr>origin = Vector3 x d z, direction = Vector3 0 (- 1) 0\<rparr>).
          \<not> distance c < d * 2)"
  proof -
    have "getGroundHeight T w x z d = None \<longleftrightarrow>
      raycast T w \<lparr>origin = Vector3 x d z, direction = Vector3 0 (- 1) 0\<rparr> (d * 2) = None"
      by (simp add: getGroundHeight_def split: option.splits)
    then show ?thesis by (simp only: raycast_None_iff)
  qed
next
  fix gy assume "getGroundHeight T w x z d = Some gy"
  then obtain h where
    h: "raycast T w \<lparr>origin = Vector3 x d z, direction = Vector3 0 (- 1) 0\<rparr> (d * 2) = Some h"
    and gy: "gy = vy (point h)"
    by (auto simp: getGroundHeight_def split: option.splits)
  from raycast_SomeD [OF h] gy
  show "\<exists>h\<in>set (ray_hits T w \<lparr>origin = Vector3 x d z, direction = Vector3 0 (- 1) 0\<rparr>).
          gy = vy (point h) \<and> distance h < d * 2 \<and>
          (\<forall>c\<in>set (ray_hits T w \<lparr>origin = Vector3 x d z, direction = Vector3 0 (- 1) 0\<rparr>).
              distance h \<le> distance c)"
    by blast
qed

theorem getGroundHeight_nearest_witness:
  "getGroundHeight (floors (\<lambda>k. - 3)) deep_floor 0 0 5 = Some (- 3) \<and>
   getGroundHeight (floors (\<lambda>k. - 3)) deep_floor 0 0 1 = None"
proof -
  have "getGroundHeight (floors (\<lambda>k. - 3)) deep_floor 0 0 5 \<noteq> None"
    using getGroundHeight_nearest [where T = "floors (\<lambda>k. - 3)" and w = deep_floor
        and x = 0 and z = 0 and d = 5]
    by (simp add: ground_probe_deep_floor)
  then obtain gy where gy: "getGroundHeight (floors (\<lambda>k. - 3)) deep_floor 0 0 5 = Some gy"
    by blast
  with getGroundHeight_nearest [where T = "floors (\<lambda>k. - 3)" and w = deep_floor
        and x = 0 and z = 0 and d = 5]
  have "gy = - 3" by (simp add: ground_probe_deep_floor)
  moreover have "getGroundHeight (floors (\<lambda>k. - 3)) deep_floor 0 0 1 = None"
    using getGroundHeight_nearest [where T = "floors (\<lambda>k. - 3)" and w = deep_floor
        and x = 0 and z = 0 and d = 1]
    by (simp add: ground_probe_deep_floor)
  ultimately show ?thesis using gy by simp
qed

text \<open>
  C6. After any sequence of calls on a new manager (with the client changing the meshes
  in between as it likes) the registry holds at most one entry per mesh, and it holds an
  entry for \<open>m\<close> if and only if some \<^verbatim>\<open>buildBVH(m)\<close> returned an entry after the most
  recent \<^verbatim>\<open>removeBVH(m)\<close> or \<^verbatim>\<open>clear\<close>.
\<close>

theorem registry_invariant:
  "distinct (Map_keys (bvhMeshes (run T cs (new_world g gs mw)))) \<and>
   (Map_has (bvhMeshes (run T cs (new_world g gs mw))) m \<longleftrightarrow>
      spec_registered T m cs (new_world g gs mw) False)"
proof -
  have d: "distinct (Map_keys (bvhMeshes (new_world g gs mw)))"
    by (simp add: new_world_empty Map_keys_def)
  have n: "Map_has (bvhMeshes (new_world g gs mw)) m = False"
    by (simp add: new_world_empty Map_has_def)
  show ?thesis using run_invariant [OF d, of T cs m] by (simp only: n)
qed

theorem registry_invariant_witness:
  "distinct (Map_keys (bvhMeshes (run (floors real) [BuildBVH 0, BuildBVH 1, BuildBVH 1, RemoveBVH 0]
      (new_world (\<lambda>k. Some k) (\<lambda>r. floor_geometry 0) (\<lambda>k. 0))))) \<and>
   Map_has (bvhMeshes (run (floors real) [BuildBVH 0, BuildBVH 1, BuildBVH 1, RemoveBVH 0]
      (new_world (\<lambda>k. Some k) (\<lambda>r. floor_geometry 0) (\<lambda>k. 0)))) 1 \<and>
   \<not> Map_has (bvhMeshes (run (floors real) [BuildBVH 0, BuildBVH 1, BuildBVH 1, RemoveBVH 0]
      (new_world (\<lambda>k. Some k) (\<lambda>r. floor_geometry 0) (\<lambda>k. 0)))) 0"
proof -
  have 1: "spec_registered (floors real) 1 [BuildBVH 0, BuildBVH 1, BuildBVH 1, RemoveBVH 0]
      (new_world (\<lambda>k. Some k) (\<lambda>r. floor_geometry 0) (\<lambda>k. 0)) False"
    by (simp add: new_world_def buildBVH_def buildBVH_try_def floors_def
      floor_geometry_def fun_upd_const Map_has_def Map_get_def Let_def removeBVH_def Map_delete_def)
  have 0: "\<not> spec_registered (floors real) 0 [BuildBVH 0, BuildBVH 1, BuildBVH 1, RemoveBVH 0]
      (new_world (\<lambda>k. Some k) (\<lambda>r. floor_geometry 0) (\<lambda>k. 0)) False"
    by (simp add: new_world_def buildBVH_def buildBVH_try_def floors_def
      floor_geometry_def fun_upd_const Map_has_def Map_get_def Let_def removeBVH_def Map_delete_def)
  show ?thesis
    using 0 1
      registry_invariant [of "floors real" "[BuildBVH 0, BuildBVH 1, BuildBVH 1, RemoveBVH 0]"
        "\<lambda>k. Some k" "\<lambda>r. floor_geometry 0" "\<lambda>k. 0" 1]
      registry_invariant [of "floors real" "[BuildBVH 0, BuildBVH 1, BuildBVH 1, RemoveBVH 0]"
        "\<lambda>k. Some k" "\<lambda>r. floor_geometry 0" "\<lambda>k. 0" 0]
    by blast
qed

text \<open>
  C7. \<^verbatim>\<open>sphereCast\<close> is to take the sphere and the direction into the local space of each
  registered mesh and to return the nearest hit of the sphere moving in that direction,
  or null. The code does not: it moves the direction with \<^verbatim>\<open>Vector3.applyMatrix4\<close>, as it
  would a point, so the translation of the mesh is added to the direction (\<^verbatim>\<open>raycast\<close>,
  through \<^verbatim>\<open>Ray.applyMatrix4\<close>, moves directions as directions). For a floor translated
  to height 5 and a sphere at height 8 moving straight up, the direction \<open>(0, 1, 0)\<close>
  arrives in local space as \<open>(0, - 4, 0)\<close>, pointing down: \<^verbatim>\<open>sphereCast\<close> returns a hit
  on the floor below the sphere, at distance 3, where the sphere moves away from the
  floor and a ray along the same direction hits nothing.
\<close>

theorem sphereCast_direction_moved_as_point:
  "bvhMeshes raised_floor = [(0, \<lparr>mesh = 0, bvh = 0, invMatrixWorld = - 5\<rparr>)] \<and>
   matrixWorld raised_floor 0 = 5 \<and>
   applyMatrix4 (floors (\<lambda>k. 5)) (Vector3 0 1 0) (- 5) = Vector3 0 (- 4) 0 \<and>
   transformDirection (floors (\<lambda>k. 5)) (Vector3 0 1 0) (- 5) = Vector3 0 1 0 \<and>
   local_direction (floors (\<lambda>k. 5)) (Vector3 0 1 0) 10
       \<lparr>mesh = 0, bvh = 0, invMatrixWorld = - 5\<rparr> = Vector3 0 (- 10) 0 \<and>
   sphereCast (floors (\<lambda>k. 5)) raised_floor rising_sphere (Vector3 0 1 0) 10 =
     Some \<lparr>point = Vector3 0 5 0, face = (), faceIndex = 0, uv = None, uv2 = None,
       distance = 3, object = 0\<rparr> \<and>
   raycast (floors (\<lambda>k. 5)) raised_floor
       \<lparr>origin = center rising_sphere, direction = Vector3 0 1 0\<rparr> 10 = None"
  by (simp add: raised_floor_eq sphereCast_def sphereCast_visit_def raycast_def raycast_visit_def
      Ray_applyMatrix4_def floors_def local_direction_def setFromCenterAndSize_def
      expandByPoint_def add_def rising_sphere_def normalizeV_def multiplyScalar_def
      vlength_vertical distanceTo_vertical Let_def)

text \<open>
  Counterexample to C10 as written. The probe of \<^verbatim>\<open>getGroundHeight\<close> starts at the
  absolute height \<open>maxDistance\<close>, whatever the height of the point: a point at height 5
  over a floor at height 0, with \<open>maxDistance = 2\<close>, is more than \<open>maxDistance\<close> above
  the start of the probe and is reported as on ground when the threshold is 10.
\<close>

theorem isOnGround_iff_counterexample:
  "getGroundHeight (floors real) one_floor (vx (Vector3 0 5 0)) (vz (Vector3 0 5 0)) 2 = Some 0 \<and>
   (2::real) + 2 < vy (Vector3 0 5 0) \<and>
   isOnGround (floors real) one_floor (Vector3 0 5 0) 10 2"
  by (simp add: isOnGround_def getGroundHeight_one_floor)

text \<open>
  C10. \<^verbatim>\<open>isOnGround(position, threshold, maxDistance)\<close> is true if and only if
  \<^verbatim>\<open>getGroundHeight(position.x, position.z, maxDistance)\<close> returns a height \<open>h\<close> with
  \<open>\<bar>position.y - h\<bar> < threshold\<close>; in particular it is false whenever
  \<^verbatim>\<open>getGroundHeight\<close> returns null.
\<close>

theorem isOnGround_iff:
  "(isOnGround T w p threshold d \<longleftrightarrow>
      (\<exists>h. getGroundHeight T w (vx p) (vz p) d = Some h \<and> \<bar>vy p - h\<bar> < threshold)) \<and>
   (getGroundHeight T w (vx p) (vz p) d = None \<longrightarrow> \<not> isOnGround T w p threshold d)"
  by (simp add: isOnGround_def split: option.splits)

theorem isOnGround_iff_witness:
  "getGroundHeight (floors real) one_floor (vx (Vector3 0 (1/2) 0)) (vz (Vector3 0 (1/2) 0)) 2 = Some 0 \<and>
   isOnGround (floors real) one_floor (Vector3 0 (1/2) 0) 1 2 \<and>
   \<not> isOnGround (floors real) one_floor (Vector3 0 (1/2) 0) (1/10) 2 \<and>
   getGroundHeight (floors real) fresh_floors (vx (Vector3 0 0 0)) (vz (Vector3 0 0 0)) 2 = None \<and>
   \<not> isOnGround (floors real) fresh_floors (Vector3 0 0 0) 1 2"
proof -
  have n: "getGroundHeight (floors real) fresh_floors 0 0 2 = None"
    by (simp add: getGroundHeight_def raycast_def fresh_floors_def new_world_def)
  show ?thesis
    using isOnGround_iff [of "floors real" one_floor "Vector3 0 (1/2) 0" 1 2]
      isOnGround_iff [of "floors real" one_floor "Vector3 0 (1/2) 0" "1/10" 2]
      isOnGround_iff [of "floors real" fresh_floors "Vector3 0 0 0" 1 2]
      getGroundHeight_one_floor n
    by simp
qed

end
